theory Spec2Isabelle
  imports Main "HOL-Library.Word"
begin

unbundle bit_operations_syntax

section \<open>Python values used by the deploy engine\<close>

type_synonym bytes = "8 word list"

text \<open>
  The values a calldata dictionary holds. A dictionary is a map from its string keys to the
  values bound to them; \<open>PyDict\<close> is a nested dictionary (the \<open>params\<close> entry).
\<close>

datatype pyval =
    PyNone
  | PyStr string
  | PyBytes bytes
  | PyInt int
  | PyDict "(string \<times> pyval) list"

type_synonym data = "string \<Rightarrow> pyval option"

definition dict_get :: "data \<Rightarrow> string \<Rightarrow> pyval" where
  \<comment> \<open>\<open>d.get(k)\<close>: Python's \<open>None\<close> when the key is missing.\<close>
  "dict_get d k = (case d k of None \<Rightarrow> PyNone | Some v \<Rightarrow> v)"

definition dict_get_default :: "data \<Rightarrow> string \<Rightarrow> pyval \<Rightarrow> pyval" where
  \<comment> \<open>\<open>d.get(k, dflt)\<close>.\<close>
  "dict_get_default d k dflt = (case d k of None \<Rightarrow> dflt | Some v \<Rightarrow> v)"

subsection \<open>\<open>bytes.fromhex\<close>\<close>

definition hex_value :: "char \<Rightarrow> nat option" where
  "hex_value c =
     (let n = (of_char c :: nat) in
      if 48 \<le> n \<and> n \<le> 57 then Some (n - 48)
      else if 97 \<le> n \<and> n \<le> 102 then Some (n - 87)
      else if 65 \<le> n \<and> n \<le> 70 then Some (n - 55)
      else None)"

definition is_space :: "char \<Rightarrow> bool" where
  \<comment> \<open>ASCII whitespace: space, tab, line feed, vertical tab, form feed, carriage return.\<close>
  "is_space c = ((of_char c :: nat) \<in> {32, 9, 10, 11, 12, 13})"

text \<open>
  \<open>bytes.fromhex(s)\<close>: two hexadecimal digits per byte, whitespace skipped between bytes
  (never inside one); \<open>None\<close> stands for the \<open>ValueError\<close> it raises otherwise.
\<close>

fun fromhex :: "string \<Rightarrow> bytes option" where
  "fromhex [] = Some []"
| "fromhex [c] = (if is_space c then Some [] else None)"
| "fromhex (c # d # cs) =
     (if is_space c then fromhex (d # cs)
      else (case (hex_value c, hex_value d) of
              (Some hi, Some lo) \<Rightarrow> map_option ((#) (of_nat (16 * hi + lo))) (fromhex cs)
            | _ \<Rightarrow> None))"

subsection \<open>\<open>str\<close> of an integer and \<open>os.path.join\<close>\<close>

function str_nat :: "nat \<Rightarrow> string" where
  "str_nat n =
     (if n < 10 then [char_of (48 + n)]
      else str_nat (n div 10) @ [char_of (48 + n mod 10)])"
  by pat_completeness auto
termination
  by (relation "measure id") auto

definition str_int :: "int \<Rightarrow> string" where
  "str_int i = (if i < 0 then CHR ''-'' # str_nat (nat (- i)) else str_nat (nat i))"

definition slot_name :: "int \<Rightarrow> int \<Rightarrow> string" where
  \<comment> \<open>The f-string \<open>f'{height}_{index}'\<close>.\<close>
  "slot_name height index = str_int height @ ''_'' @ str_int index"

definition path_join :: "string \<Rightarrow> string \<Rightarrow> string" where
  \<comment> \<open>\<open>posixpath.join(a, b)\<close>.\<close>
  "path_join a b =
     (if take 1 b = ''/'' then b
      else if a = [] \<or> last a = CHR ''/'' then a @ b
      else a @ ''/'' @ b)"

section \<open>Addresses, exceptions, context\<close>

datatype AddressPrefix = EOA | CONTRACT

datatype address = Address AddressPrefix bytes

definition ZERO_SCORE_ADDRESS :: address where
  \<comment> \<open>\<open>cx0000000000000000000000000000000000000000\<close>: the contract prefix and twenty zero bytes.\<close>
  "ZERO_SCORE_ADDRESS = Address CONTRACT (replicate 20 0)"

fun is_contract :: "address \<Rightarrow> bool" where
  "is_contract (Address p _) = (p = CONTRACT)"

text \<open>
  An exception message is kept as the f-string that builds it: its literal text and the
  value interpolated after it.
\<close>

datatype interp = I_bytes bytes | I_addr address | I_val pyval

datatype message = Plain string | FString string interp

text \<open>What a collaborator (storage, mapper, deployer, file system, contract code) raises.\<close>

datatype ext_error = FileExistsError | OtherError string

datatype exn =
    InvalidParamsException message
  | InvalidRequestException message
  | KeyError string
  | TypeError
  | ValueError
  | External ext_error

record icon_score_context =
  tx_origin :: address
  tx_hash :: bytes
  tx_index :: int
  block_height :: int

datatype DeployType = INSTALL | UPDATE

text \<open>The attributes \<open>deploy\<close> reads from the stored transaction parameters.\<close>

record tx_params =
  score_address :: address
  deploy_state :: DeployType
  deploy_data :: data

record deploy_info =
  owner :: address
  current_tx_hash :: "bytes option"
  next_tx_hash :: "bytes option"

section \<open>The engine's collaborators\<close>

text \<open>
  A bound lifecycle hook of a contract instance: \<open>score.on_install\<close> or \<open>score.on_update\<close>.
\<close>

datatype 's hook = On_install 's | On_update 's

text \<open>
  \<open>IconScoreDeployEngine\<close> holds its flags and the objects it was opened with; the storage,
  the mapper, the deployer, the built-in loader, the type converter, the file system and the
  contract instances are not part of the engine. They are parameters here: \<open>'w\<close> is the state
  they keep, \<open>'s\<close> a contract instance, \<open>'n\<close> the annotations of a hook. Readers are
  functions of the state; everything else may change the state and may raise.
  \<open>TypeConverter.convert_data_params\<close> returns nothing the engine uses: it works on the
  object passed to it. Here it gives its outcome and that object as the call leaves it.
\<close>

record ('w, 's, 'n) engine =
  flags :: nat
  score_root_path :: string
  is_builtin_score :: "address \<Rightarrow> bool"
  to_bytes_hex :: "address \<Rightarrow> string"
  put_deploy_info_and_tx_params ::
    "icon_score_context \<Rightarrow> address \<Rightarrow> DeployType \<Rightarrow> address \<Rightarrow> bytes \<Rightarrow> data \<Rightarrow> 'w \<Rightarrow> (ext_error + unit) \<times> 'w"
  get_score_owner :: "icon_score_context \<Rightarrow> address \<Rightarrow> 'w \<Rightarrow> address option"
  get_deploy_tx_params :: "icon_score_context \<Rightarrow> bytes \<Rightarrow> 'w \<Rightarrow> tx_params option"
  update_score_info :: "icon_score_context \<Rightarrow> address \<Rightarrow> bytes \<Rightarrow> 'w \<Rightarrow> (ext_error + unit) \<times> 'w"
  get_deploy_info :: "icon_score_context \<Rightarrow> address \<Rightarrow> 'w \<Rightarrow> deploy_info option"
  delete_icon_score :: "address \<Rightarrow> 'w \<Rightarrow> (ext_error + unit) \<times> 'w"
  is_exist_db :: "address \<Rightarrow> 'w \<Rightarrow> bool"
  get_icon_score :: "icon_score_context \<Rightarrow> address \<Rightarrow> 'w \<Rightarrow> (ext_error + 's option) \<times> 'w"
  deployer_deploy :: "address \<Rightarrow> pyval \<Rightarrow> int \<Rightarrow> int \<Rightarrow> 'w \<Rightarrow> (ext_error + unit) \<times> 'w"
  makedirs :: "string \<Rightarrow> 'w \<Rightarrow> (ext_error + unit) \<times> 'w"
  symlink :: "pyval \<Rightarrow> string \<Rightarrow> 'w \<Rightarrow> (ext_error + unit) \<times> 'w"
  make_annotations_from_method :: "'s hook \<Rightarrow> ext_error + 'n"
  convert_data_params :: "'n \<Rightarrow> pyval \<Rightarrow> (ext_error + unit) \<times> pyval"
  call_method :: "'s hook \<Rightarrow> pyval \<Rightarrow> 'w \<Rightarrow> (ext_error + unit) \<times> 'w"

text \<open>
  Every call the engine makes to a collaborator is logged with its arguments and its outcome,
  in the order of the calls.
\<close>

datatype ('s, 'n) event =
    Put_deploy_info_and_tx_params address DeployType address bytes data "ext_error + unit"
  | Get_score_owner address "address option"
  | Get_deploy_tx_params bytes "tx_params option"
  | Update_score_info address bytes "ext_error + unit"
  | Get_deploy_info address "deploy_info option"
  | Delete_icon_score address "ext_error + unit"
  | Makedirs string "ext_error + unit"
  | Symlink pyval string "ext_error + unit"
  | Deployer_deploy address pyval int int "ext_error + unit"
  | Is_exist_db address bool
  | Get_icon_score address "ext_error + 's option"
  | Make_annotations_from_method "'s hook" "ext_error + 'n"
  | Convert_data_params 'n pyval "ext_error + unit" pyval
  | Call_method "'s hook" pyval "ext_error + unit"

text \<open>
  A function of the engine, run on the collaborators' state, gives its outcome (the exception
  raised or the value returned), the calls it made, and the collaborators' state it leaves.
\<close>

type_synonym ('a, 'w, 's, 'n) prog = "'w \<Rightarrow> (exn + 'a) \<times> ('s, 'n) event list \<times> 'w"

definition outcome :: "'r \<times> 'l \<times> 'w \<Rightarrow> 'r" where
  "outcome t = fst t"

definition calls :: "'r \<times> 'l \<times> 'w \<Rightarrow> 'l" where
  "calls t = fst (snd t)"

definition world :: "'r \<times> 'l \<times> 'w \<Rightarrow> 'w" where
  "world t = snd (snd t)"

definition returnE :: "'a \<Rightarrow> ('a, 'w, 's, 'n) prog" where
  "returnE a = (\<lambda>w. (Inr a, [], w))"

definition raiseE :: "exn \<Rightarrow> ('a, 'w, 's, 'n) prog" where
  "raiseE x = (\<lambda>w. (Inl x, [], w))"

definition bindE :: "('a, 'w, 's, 'n) prog \<Rightarrow> ('a \<Rightarrow> ('b, 'w, 's, 'n) prog) \<Rightarrow> ('b, 'w, 's, 'n) prog" where
  \<comment> \<open>Sequencing: an exception of the first statement ends the block.\<close>
  "bindE m f =
     (\<lambda>w. case m w of
             (Inl x, evs, w') \<Rightarrow> (Inl x, evs, w')
           | (Inr a, evs, w') \<Rightarrow> (case f a w' of (r, evs', w'') \<Rightarrow> (r, evs @ evs', w'')))"

definition lift_ext :: "ext_error + 'a \<Rightarrow> exn + 'a" where
  "lift_ext r = (case r of Inl x \<Rightarrow> Inl (External x) | Inr a \<Rightarrow> Inr a)"

definition perform ::
  "(ext_error + 'a \<Rightarrow> ('s, 'n) event) \<Rightarrow> ('w \<Rightarrow> (ext_error + 'a) \<times> 'w) \<Rightarrow> ('a, 'w, 's, 'n) prog" where
  \<comment> \<open>A call that may change the collaborators' state and may raise.\<close>
  "perform ev op = (\<lambda>w. case op w of (r, w') \<Rightarrow> (lift_ext r, [ev r], w'))"

definition ask :: "('a \<Rightarrow> ('s, 'n) event) \<Rightarrow> ('w \<Rightarrow> 'a) \<Rightarrow> ('a, 'w, 's, 'n) prog" where
  \<comment> \<open>A call that reads the collaborators' state.\<close>
  "ask ev q = (\<lambda>w. (Inr (q w), [ev (q w)], w))"

definition attempt :: "(ext_error + 'a \<Rightarrow> ('s, 'n) event) \<Rightarrow> ext_error + 'a \<Rightarrow> ('a, 'w, 's, 'n) prog" where
  \<comment> \<open>A call that computes a value from its arguments alone and may raise.\<close>
  "attempt ev r = (\<lambda>w. (lift_ext r, [ev r], w))"

definition in_place ::
  "(ext_error + unit \<Rightarrow> pyval \<Rightarrow> ('s, 'n) event) \<Rightarrow> (ext_error + unit) \<times> pyval \<Rightarrow> (pyval, 'w, 's, 'n) prog" where
  \<comment> \<open>A call that works on the object passed to it and may raise: the caller goes on with
      the object as the call left it.\<close>
  "in_place ev r = (\<lambda>w. (case fst r of Inl x \<Rightarrow> Inl (External x) | Inr _ \<Rightarrow> Inr (snd r), [ev (fst r) (snd r)], w))"

definition except_FileExistsError :: "(unit, 'w, 's, 'n) prog \<Rightarrow> (unit, 'w, 's, 'n) prog" where
  \<comment> \<open>\<open>try: m except FileExistsError: pass\<close>.\<close>
  "except_FileExistsError m =
     (\<lambda>w. case m w of (r, evs, w') \<Rightarrow>
             (if r = Inl (External FileExistsError) then (Inr (), evs, w') else (r, evs, w')))"

section \<open>IconScoreDeployEngine\<close>

definition ENABLE_DEPLOY_AUDIT :: nat where
  "ENABLE_DEPLOY_AUDIT = 1"

definition is_flag_on :: "('w, 's, 'n) engine \<Rightarrow> nat \<Rightarrow> bool" where
  "is_flag_on e flag = ((flags e AND flag) = flag)"

definition initialize_score ::
  "('w, 's, 'n) engine \<Rightarrow> icon_score_context \<Rightarrow> 's hook \<Rightarrow> pyval \<Rightarrow> (unit, 'w, 's, 'n) prog" where
  \<comment> \<open>The result of \<open>convert_data_params\<close> is dropped: the hook is called with the object
      \<open>params\<close> as the converter left it, as keyword arguments.\<close>
  "initialize_score e ctx hook params =
     bindE (attempt (Make_annotations_from_method hook)
              (make_annotations_from_method e hook)) (\<lambda>annotations.
     bindE (in_place (Convert_data_params annotations params)
              (convert_data_params e annotations params)) (\<lambda>params.
     perform (Call_method hook params) (call_method e hook params)))"

definition link_content ::
  "('w, 's, 'n) engine \<Rightarrow> icon_score_context \<Rightarrow> address \<Rightarrow> pyval \<Rightarrow> (unit, 'w, 's, 'n) prog" where
  \<comment> \<open>The \<open>application/tbears\<close> branch of \<open>_on_deploy\<close>.\<close>
  "link_content e ctx icon_score_address content =
     bindE (perform (Delete_icon_score icon_score_address)
              (delete_icon_score e icon_score_address)) (\<lambda>_.
     let target_path = path_join (score_root_path e) (to_bytes_hex e icon_score_address) in
     bindE (perform (Makedirs target_path) (makedirs e target_path)) (\<lambda>_.
     let target_path = path_join target_path (slot_name (block_height ctx) (tx_index ctx)) in
     except_FileExistsError
       (perform (Symlink content target_path) (symlink e content target_path))))"

definition select_hook :: "DeployType \<Rightarrow> 's \<Rightarrow> 's hook" where
  \<comment> \<open>\<open>score.on_install\<close> for an install, \<open>score.on_update\<close> for an update.\<close>
  "select_hook deploy_state' score =
     (case deploy_state' of INSTALL \<Rightarrow> On_install score | UPDATE \<Rightarrow> On_update score)"

definition on_deploy ::
  "('w, 's, 'n) engine \<Rightarrow> icon_score_context \<Rightarrow> DeployType \<Rightarrow> address \<Rightarrow> data \<Rightarrow> (unit, 'w, 's, 'n) prog" where
  "on_deploy e ctx deploy_state' icon_score_address data =
     (let content_type = dict_get data ''contentType'';
          content = dict_get data ''content'';
          params = dict_get_default data ''params'' (PyDict [])
      in
      bindE (if content_type = PyStr ''application/tbears''
             then link_content e ctx icon_score_address content
             else returnE ()) (\<lambda>_.
      bindE (perform (Deployer_deploy icon_score_address content (block_height ctx) (tx_index ctx))
               (deployer_deploy e icon_score_address content (block_height ctx) (tx_index ctx))) (\<lambda>_.
      bindE (ask (Is_exist_db icon_score_address) (is_exist_db e icon_score_address)) (\<lambda>db_exist.
      bindE (perform (Get_icon_score icon_score_address)
               (get_icon_score e ctx icon_score_address)) (\<lambda>score.
      case score of
        None \<Rightarrow> raiseE (InvalidParamsException (FString ''score is None : '' (I_addr icon_score_address)))
      | Some sc \<Rightarrow>
          if \<not> db_exist then initialize_score e ctx (select_hook deploy_state' sc) params
          else returnE ())))))"




text \<open>
  \<open>_score_deploy\<close> assigns to \<open>data['content']\<close>, so its caller's dictionary is changed by the
  call. \<open>decode_content\<close> is that first part of the function: it gives the dictionary as
  the assignment leaves it, or the exception raised before anything is assigned.
\<close>

definition decode_content :: "data \<Rightarrow> exn + data" where
  "decode_content data =
     (let content_type = dict_get data ''contentType'' in
      if content_type = PyStr ''application/tbears'' then Inr data
      else if content_type = PyStr ''application/zip'' then
        (case data ''content'' of
           None \<Rightarrow> Inl (KeyError ''content'')
         | Some (PyStr hex) \<Rightarrow>
             (case fromhex (drop 2 hex) of
                None \<Rightarrow> Inl ValueError
              | Some raw \<Rightarrow> Inr (data(''content'' \<mapsto> PyBytes raw)))
         | Some _ \<Rightarrow> Inl TypeError)
      else Inl (InvalidParamsException (FString ''Invalid contentType: '' (I_val content_type))))"

text \<open>
  \<open>_on_deploy\<close> assigns to no key, but it hands the object bound to \<open>data['params']\<close> to
  \<open>_initialize_score\<close>, where \<open>convert_data_params\<close> works on it. When the key is absent
  \<open>data.get('params', {})\<close> is a new dictionary, which the caller's dictionary does not hold.
  So the caller's dictionary after \<open>_score_deploy\<close> is determined by the dictionary before
  and the calls of the run: \<open>content\<close> as assigned, and the object bound to \<open>params\<close> as
  the converter left it, if the converter was called.
\<close>

fun converted :: "('s, 'n) event list \<Rightarrow> pyval option" where
  \<comment> \<open>The object the type converter was called on, as the call left it.\<close>
  "converted [] = None"
| "converted (Convert_data_params _ _ _ left # evs) = Some left"
| "converted (_ # evs) = converted evs"

definition data_after :: "data \<Rightarrow> ('s, 'n) event list \<Rightarrow> data" where
  \<comment> \<open>The caller's dictionary after \<open>_score_deploy\<close> has run on it and made the calls \<open>evs\<close>.\<close>
  "data_after data evs =
     (let assigned = (case decode_content data of Inl _ \<Rightarrow> data | Inr data' \<Rightarrow> data') in
      case (data ''params'', converted evs) of
        (Some _, Some left) \<Rightarrow> assigned(''params'' \<mapsto> left)
      | _ \<Rightarrow> assigned)"

definition score_deploy ::
  "('w, 's, 'n) engine \<Rightarrow> icon_score_context \<Rightarrow> DeployType \<Rightarrow> address \<Rightarrow> data \<Rightarrow> (unit, 'w, 's, 'n) prog" where
  "score_deploy e ctx deploy_state' icon_score_address data =
     (case decode_content data of
        Inl x \<Rightarrow> raiseE x
      | Inr data' \<Rightarrow> on_deploy e ctx deploy_state' icon_score_address data')"

definition deploy :: "('w, 's, 'n) engine \<Rightarrow> icon_score_context \<Rightarrow> bytes \<Rightarrow> (unit, 'w, 's, 'n) prog" where
  "deploy e ctx tx_hash' =
     bindE (ask (Get_deploy_tx_params tx_hash') (get_deploy_tx_params e ctx tx_hash')) (\<lambda>tx_params.
     case tx_params of
       None \<Rightarrow> raiseE (InvalidParamsException (FString ''tx_params is None : '' (I_bytes tx_hash')))
     | Some tx_params \<Rightarrow>
         let score_address' = score_address tx_params in
         bindE (perform (Update_score_info score_address' tx_hash')
                  (update_score_info e ctx score_address' tx_hash')) (\<lambda>_.
         bindE (ask (Get_deploy_info score_address') (get_deploy_info e ctx score_address')) (\<lambda>deploy_info.
         case deploy_info of
           None \<Rightarrow> raiseE (InvalidParamsException (FString ''deploy_info is None : '' (I_addr score_address')))
         | Some _ \<Rightarrow>
             score_deploy e ctx (deploy_state tx_params) score_address' (deploy_data tx_params))))"

definition write_deploy_info_and_tx_params ::
  "('w, 's, 'n) engine \<Rightarrow> icon_score_context \<Rightarrow> DeployType \<Rightarrow> address \<Rightarrow> data \<Rightarrow> (unit, 'w, 's, 'n) prog" where
  "write_deploy_info_and_tx_params e ctx deploy_state' icon_score_address data =
     perform (Put_deploy_info_and_tx_params icon_score_address deploy_state' (tx_origin ctx) (tx_hash ctx) data)
       (put_deploy_info_and_tx_params e ctx icon_score_address deploy_state' (tx_origin ctx) (tx_hash ctx) data)"

definition check_audit_ignore ::
  "('w, 's, 'n) engine \<Rightarrow> icon_score_context \<Rightarrow> address \<Rightarrow> (bool, 'w, 's, 'n) prog" where
  "check_audit_ignore e ctx icon_score_address =
     (let is_built_score = is_builtin_score e icon_score_address in
      bindE (ask (Get_score_owner icon_score_address) (get_score_owner e ctx icon_score_address)) (\<lambda>owner'.
      let is_owner = (Some (tx_origin ctx) = owner');
          is_enable_audit = is_flag_on e ENABLE_DEPLOY_AUDIT
      in returnE (\<not> is_enable_audit \<or> (is_built_score \<and> is_owner))))"

definition invoke ::
  "('w, 's, 'n) engine \<Rightarrow> icon_score_context \<Rightarrow> address \<Rightarrow> address \<Rightarrow> data \<Rightarrow> (unit, 'w, 's, 'n) prog" where
  \<comment> \<open>The \<open>except BaseException\<close> handler logs the exception and raises it again.\<close>
  "invoke e ctx to icon_score_address data =
     (let deploy_state' = (if to = ZERO_SCORE_ADDRESS then INSTALL else UPDATE) in
      bindE (write_deploy_info_and_tx_params e ctx deploy_state' icon_score_address data) (\<lambda>_.
      bindE (check_audit_ignore e ctx icon_score_address) (\<lambda>ignore.
      if ignore then deploy e ctx (tx_hash ctx) else returnE ())))"

section \<open>Runs and their logs\<close>

definition post ::
  "('a, 'w, 's, 'n) prog \<Rightarrow> 'w \<Rightarrow> ((exn + 'a) \<Rightarrow> ('s, 'n) event list \<Rightarrow> 'w \<Rightarrow> bool) \<Rightarrow> bool" where
  \<comment> \<open>\<open>Q\<close> holds of the outcome, the calls and the final state of the run of \<open>m\<close> from \<open>w\<close>.\<close>
  "post m w Q = Q (outcome (m w)) (calls (m w)) (world (m w))"




fun storage_write :: "('s, 'n) event \<Rightarrow> bool" where
  \<comment> \<open>A call that writes to the deploy storage.\<close>
  "storage_write (Put_deploy_info_and_tx_params _ _ _ _ _ _) = True"
| "storage_write (Update_score_info _ _ _) = True"
| "storage_write _ = False"

definition keeps_store :: "('w \<Rightarrow> 'st) \<Rightarrow> ('w, 's, 'n) engine \<Rightarrow> bool" where
  \<comment> \<open>The mapper, the deployer, the file system and the contracts' hooks leave the part
      \<open>store\<close> of the collaborators' state as it is.\<close>
  "keeps_store store e =
     ((\<forall>a w. store (snd (delete_icon_score e a w)) = store w)
      \<and> (\<forall>ctx a w. store (snd (get_icon_score e ctx a w)) = store w)
      \<and> (\<forall>a c height index w. store (snd (deployer_deploy e a c height index w)) = store w)
      \<and> (\<forall>p w. store (snd (makedirs e p w)) = store w)
      \<and> (\<forall>c t w. store (snd (symlink e c t w)) = store w)
      \<and> (\<forall>m p w. store (snd (call_method e m p w)) = store w))"

section \<open>IconPreValidator\<close>

text \<open>
  The validator's code is not among the repository's files at hand; only its tests are. The
  definitions of this section follow the specification's description of it (section 4.1),
  with the collaborators the tests construct it from.
\<close>

text \<open>
  A transaction request. The optional entries of the request dictionary (\<open>version\<close>,
  \<open>nonce\<close>, \<open>dataType\<close>) are options; the others are present.
\<close>

record tx_request =
  req_version :: "int option"
  req_from :: address
  req_to :: address
  req_value :: int
  req_fee :: int
  req_step_limit :: int
  req_timestamp :: int
  req_nonce :: "int option"
  req_data_type :: "string option"

text \<open>
  The balance oracle, the contract-status oracle, the store of registered contract addresses
  and the address codec \<open>generate_score_address\<close>.
\<close>

record icon_pre_validator =
  get_balance :: "address \<Rightarrow> int"
  is_score_status_active :: "address \<Rightarrow> bool"
  score_mapper :: "address set"
  generate_score_address :: "address \<Rightarrow> int \<Rightarrow> int option \<Rightarrow> address"

definition tx_cost :: "tx_request \<Rightarrow> int \<Rightarrow> int" where
  \<comment> \<open>Modelled from the spec: the version gate of \<open>execute\<close>, which is not under src/. Legacy
      transactions (no declared version) use the flat \<open>fee\<close> field; current-version
      transactions use \<open>step_limit * step_price\<close>.\<close>
  "tx_cost tx step_price =
     (case req_version tx of
        None \<Rightarrow> req_fee tx
      | Some _ \<Rightarrow> req_step_limit tx * step_price)"

definition check_value :: "tx_request \<Rightarrow> exn + unit" where
  \<comment> \<open>Modelled from the spec: step 2 of \<open>execute\<close>, which is not under src/.
      \<open>value < 0\<close> gives \<open>InvalidParams("value < 0")\<close>.\<close>
  "check_value tx =
     (if req_value tx < 0 then Inl (InvalidParamsException (Plain ''value < 0'')) else Inr ())"

definition check_balance :: "icon_pre_validator \<Rightarrow> tx_request \<Rightarrow> int \<Rightarrow> exn + unit" where
  \<comment> \<open>Modelled from the spec: step 3 of \<open>execute\<close>, which is not under src/.
      \<open>balance(from) >= value + cost\<close>, else \<open>InvalidRequest("Out of balance")\<close>.\<close>
  "check_balance v tx step_price =
     (if get_balance v (req_from tx) \<ge> req_value tx + tx_cost tx step_price then Inr ()
      else Inl (InvalidRequestException (Plain ''Out of balance'')))"

definition check_to :: "icon_pre_validator \<Rightarrow> tx_request \<Rightarrow> exn + unit" where
  \<comment> \<open>Modelled from the spec: step 4 of \<open>execute\<close>, which is not under src/. A destination of
      contract-address form must be the zero-address sentinel or an active contract, else
      \<open>InvalidRequest("Invalid address: <to>")\<close>.\<close>
  "check_to v tx =
     (if is_contract (req_to tx) then
        (if req_to tx = ZERO_SCORE_ADDRESS \<or> is_score_status_active v (req_to tx) then Inr ()
         else Inl (InvalidRequestException (FString ''Invalid address: '' (I_addr (req_to tx)))))
      else Inr ())"

definition validate_new_score_address_on_deploy_transaction ::
  "icon_pre_validator \<Rightarrow> tx_request \<Rightarrow> exn + unit" where
  \<comment> \<open>Modelled from the spec: step 5 of \<open>execute\<close>, the validator's function
      \<open>_validate_new_score_address_on_deploy_transaction\<close>, which is not under src/. For a
      deploy transaction to the zero sentinel the new address is recomputed from
      \<open>(from, timestamp, nonce)\<close>; an entry for it in the store gives
      \<open>InvalidRequest("SCORE address already in use: <address>")\<close>.\<close>
  "validate_new_score_address_on_deploy_transaction v tx =
     (if req_to tx = ZERO_SCORE_ADDRESS \<and> req_data_type tx = Some ''deploy'' then
        (let score_address' = generate_score_address v (req_from tx) (req_timestamp tx) (req_nonce tx) in
         if score_address' \<in> score_mapper v then
           Inl (InvalidRequestException (FString ''SCORE address already in use: '' (I_addr score_address')))
         else Inr ())
      else Inr ())"

definition execute :: "icon_pre_validator \<Rightarrow> tx_request \<Rightarrow> int \<Rightarrow> exn + unit" where
  \<comment> \<open>Modelled from the spec: \<open>IconPreValidator.execute\<close>, which is not under src/. The
      checks run in the order of section 4.1 and the first violation is the result.\<close>
  "execute v tx step_price =
     (case check_value tx of
        Inl x \<Rightarrow> Inl x
      | Inr _ \<Rightarrow>
          (case check_balance v tx step_price of
             Inl x \<Rightarrow> Inl x
           | Inr _ \<Rightarrow>
               (case check_to v tx of
                  Inl x \<Rightarrow> Inl x
                | Inr _ \<Rightarrow> validate_new_score_address_on_deploy_transaction v tx)))"

definition execute_to_check_out_of_balance :: "icon_pre_validator \<Rightarrow> tx_request \<Rightarrow> int \<Rightarrow> exn + unit" where
  \<comment> \<open>Modelled from the spec: \<open>IconPreValidator.execute_to_check_out_of_balance\<close>, which is
      not under src/. It performs only the value and balance checks.\<close>
  "execute_to_check_out_of_balance v tx step_price =
     (case check_value tx of Inl x \<Rightarrow> Inl x | Inr _ \<Rightarrow> check_balance v tx step_price)"

section \<open>A reference implementation of the collaborators\<close>

text \<open>
  The storage, the mapper and the deployer are not among the repository's files at hand.
  For running the engine on concrete inputs, this section gives one implementation of them
  that follows the specification's description (sections 3, 4.3, 4.4 and 6).
\<close>

record ref_world =
  deploy_infos :: "address \<Rightarrow> deploy_info option"
  deploy_tx_params :: "bytes \<Rightarrow> tx_params option"
  databases :: "address list"
  instances :: "address \<Rightarrow> nat option"
  slots :: "address \<times> int \<times> int \<Rightarrow> pyval option"
  links :: "string \<Rightarrow> pyval option"

definition ref_put_deploy_info_and_tx_params ::
  "icon_score_context \<Rightarrow> address \<Rightarrow> DeployType \<Rightarrow> address \<Rightarrow> bytes \<Rightarrow> data \<Rightarrow> ref_world
     \<Rightarrow> (ext_error + unit) \<times> ref_world" where
  \<comment> \<open>Modelled from the spec: \<open>IconScoreDeployStorage.put_deploy_info_and_tx_params\<close>, which is
      not under src/. It writes the \<open>TxDeployParams\<close> of the hash (written once, invariant I1)
      and sets \<open>DeployInfo.next_tx_hash\<close>, creating the \<open>DeployInfo\<close> with the transaction
      origin as owner on the first request.\<close>
  "ref_put_deploy_info_and_tx_params ctx a st origin h d w =
     (Inr (),
      w\<lparr>deploy_tx_params :=
           (if deploy_tx_params w h = None
            then (deploy_tx_params w)(h \<mapsto> \<lparr>score_address = a, deploy_state = st, deploy_data = d\<rparr>)
            else deploy_tx_params w),
        deploy_infos :=
           (deploy_infos w)(a \<mapsto>
              (case deploy_infos w a of
                 None \<Rightarrow> \<lparr>owner = origin, current_tx_hash = None, next_tx_hash = Some h\<rparr>
               | Some di \<Rightarrow> di\<lparr>next_tx_hash := Some h\<rparr>))\<rparr>)"

definition ref_get_score_owner :: "icon_score_context \<Rightarrow> address \<Rightarrow> ref_world \<Rightarrow> address option" where
  \<comment> \<open>Modelled from the spec: \<open>IconScoreDeployStorage.get_score_owner\<close>, which is not under
      src/: the owner on record for the address, if any.\<close>
  "ref_get_score_owner ctx a w = map_option owner (deploy_infos w a)"

definition ref_update_score_info ::
  "icon_score_context \<Rightarrow> address \<Rightarrow> bytes \<Rightarrow> ref_world \<Rightarrow> (ext_error + unit) \<times> ref_world" where
  \<comment> \<open>Modelled from the spec: \<open>IconScoreDeployStorage.update_score_info\<close>, which is not under
      src/. It promotes \<open>DeployInfo.current_tx_hash\<close> to the hash, which is then no longer the
      pending one; without a \<open>DeployInfo\<close> there is nothing to promote.\<close>
  "ref_update_score_info ctx a h w =
     (Inr (),
      case deploy_infos w a of
        None \<Rightarrow> w
      | Some di \<Rightarrow>
          w\<lparr>deploy_infos :=
               (deploy_infos w)(a \<mapsto>
                  di\<lparr>current_tx_hash := Some h,
                     next_tx_hash := (if next_tx_hash di = Some h then None else next_tx_hash di)\<rparr>)\<rparr>)"

definition ref_get_icon_score ::
  "icon_score_context \<Rightarrow> address \<Rightarrow> ref_world \<Rightarrow> (ext_error + nat option) \<times> ref_world" where
  \<comment> \<open>Modelled from the spec: \<open>IconScoreInfoMapper.get_icon_score\<close>, which is not under src/:
      the contract-instance provider resolves an address to its instance or to none
      (\<open>resolve(address) -> instance or none\<close>). It changes nothing.\<close>
  "ref_get_icon_score ctx a w = (Inr (instances w a), w)"

definition ref_deployer_deploy ::
  "address \<Rightarrow> pyval \<Rightarrow> int \<Rightarrow> int \<Rightarrow> ref_world \<Rightarrow> (ext_error + unit) \<times> ref_world" where
  \<comment> \<open>Modelled from the spec: \<open>IconScoreDeployer.deploy\<close>, which is not under src/. It writes
      the content into the slot \<open>(address, block_height, tx_index)\<close>; an existing slot is left
      as it is.\<close>
  "ref_deployer_deploy a content height index w =
     (Inr (),
      if slots w (a, height, index) = None
      then w\<lparr>slots := (slots w)((a, height, index) \<mapsto> content)\<rparr>
      else w)"

definition ref_symlink :: "pyval \<Rightarrow> string \<Rightarrow> ref_world \<Rightarrow> (ext_error + unit) \<times> ref_world" where
  \<comment> \<open>\<open>os.symlink\<close>: an existing target raises \<open>FileExistsError\<close>.\<close>
  "ref_symlink src target w =
     (if links w target \<noteq> None then (Inl FileExistsError, w)
      else (Inr (), w\<lparr>links := (links w)(target \<mapsto> src)\<rparr>))"

definition hex_digit :: "nat \<Rightarrow> char" where
  "hex_digit n = (if n < 10 then char_of (48 + n) else char_of (87 + n))"

definition hexlify :: "bytes \<Rightarrow> string" where
  \<comment> \<open>\<open>bytes.hex()\<close>.\<close>
  "hexlify bs = concat (map (\<lambda>b. [hex_digit (unat b div 16), hex_digit (unat b mod 16)]) bs)"

fun ref_to_bytes_hex :: "address \<Rightarrow> string" where
  \<comment> \<open>\<open>Address.to_bytes\<close> is not under src/ and the specification does not describe it; in
      the example runs the bytes of an address are its body.\<close>
  "ref_to_bytes_hex (Address p body) = hexlify body"

definition ref_engine :: "nat \<Rightarrow> address list \<Rightarrow> (ref_world, nat, unit) engine" where
  \<comment> \<open>The engine opened with the given flags over the reference collaborators; \<open>builtins\<close>
      are the addresses of the built-in contracts. Directories always exist, evicting a
      cached instance changes nothing here, the type converter leaves the parameters as they
      are, and the contract's lifecycle hooks accept any parameters and do nothing. No
      collaborator creates a runtime-visible database: the databases are those of the
      initial state.\<close>
  "ref_engine fl builtins =
     \<lparr>flags = fl,
      score_root_path = ''/score'',
      is_builtin_score = (\<lambda>a. a \<in> set builtins),
      to_bytes_hex = ref_to_bytes_hex,
      put_deploy_info_and_tx_params = ref_put_deploy_info_and_tx_params,
      get_score_owner = ref_get_score_owner,
      get_deploy_tx_params = (\<lambda>ctx h w. deploy_tx_params w h),
      update_score_info = ref_update_score_info,
      get_deploy_info = (\<lambda>ctx a w. deploy_infos w a),
      delete_icon_score = (\<lambda>a w. (Inr (), w)),
      is_exist_db = (\<lambda>a w. a \<in> set (databases w)),
      get_icon_score = ref_get_icon_score,
      deployer_deploy = ref_deployer_deploy,
      makedirs = (\<lambda>p w. (Inr (), w)),
      symlink = ref_symlink,
      make_annotations_from_method = (\<lambda>m. Inr ()),
      convert_data_params = (\<lambda>n params. (Inr (), params)),
      call_method = (\<lambda>m params w. (Inr (), w))\<rparr>"

section \<open>Example inputs\<close>

definition eoa_from :: address where
  "eoa_from = Address EOA [1]"

definition eoa_to :: address where
  "eoa_to = Address EOA [2]"

definition score_a :: address where
  "score_a = Address CONTRACT [10]"

definition validator_with :: "int \<Rightarrow> address set \<Rightarrow> icon_pre_validator" where
  \<comment> \<open>A validator whose balance oracle answers \<open>balance\<close> for every account, with no active
      contract, the given registered addresses, and a codec that yields \<open>score_a\<close>.\<close>
  "validator_with balance registered =
     \<lparr>get_balance = (\<lambda>_. balance), is_score_status_active = (\<lambda>_. False),
      score_mapper = registered, generate_score_address = (\<lambda>_ _ _. score_a)\<rparr>"

definition request_v3 :: "int \<Rightarrow> tx_request" where
  \<comment> \<open>The current-version request of the validator's tests, with the given value.\<close>
  "request_v3 amount =
     \<lparr>req_version = Some 3, req_from = eoa_from, req_to = eoa_to, req_value = amount,
      req_fee = 0, req_step_limit = 100, req_timestamp = 123456, req_nonce = Some 1,
      req_data_type = None\<rparr>"

definition request_legacy :: tx_request where
  \<comment> \<open>The legacy request of the validator's tests: no version, a flat fee.\<close>
  "request_legacy =
     \<lparr>req_version = None, req_from = eoa_from, req_to = eoa_to,
      req_value = 10 * 10 ^ 18, req_fee = 10 ^ 16, req_step_limit = 0,
      req_timestamp = 1234567890, req_nonce = Some 1, req_data_type = None\<rparr>"

definition request_deploy :: tx_request where
  \<comment> \<open>The install request of \<open>test_validate_generated_score_address\<close>.\<close>
  "request_deploy =
     \<lparr>req_version = Some 3, req_from = eoa_from, req_to = ZERO_SCORE_ADDRESS, req_value = 0,
      req_fee = 0, req_step_limit = 0, req_timestamp = 1234567890, req_nonce = None,
      req_data_type = Some ''deploy''\<rparr>"

definition audited :: "address list \<Rightarrow> (ref_world, nat, unit) engine" where
  \<comment> \<open>The engine over the reference collaborators, opened with \<open>ENABLE_DEPLOY_AUDIT\<close>.\<close>
  "audited builtins = ref_engine ENABLE_DEPLOY_AUDIT builtins"

definition unaudited :: "address list \<Rightarrow> (ref_world, nat, unit) engine" where
  \<comment> \<open>The engine over the reference collaborators, opened with \<open>Flag.NONE\<close>.\<close>
  "unaudited builtins = ref_engine 0 builtins"

definition strict_update_score_info ::
  "icon_score_context \<Rightarrow> address \<Rightarrow> bytes \<Rightarrow> ref_world \<Rightarrow> (ext_error + unit) \<times> ref_world" where
  \<comment> \<open>An \<open>update_score_info\<close> that raises when the address has no \<open>DeployInfo\<close>, and is
      the reference one otherwise. The specification does not say what \<open>update_score_info\<close>
      does for an address without a \<open>DeployInfo\<close>.\<close>
  "strict_update_score_info ctx a h w =
     (case deploy_infos w a of
        None \<Rightarrow> (Inl (OtherError ''deploy_info is None''), w)
      | Some _ \<Rightarrow> ref_update_score_info ctx a h w)"

definition strict_storage :: "(ref_world, nat, unit) engine" where
  \<comment> \<open>The audited reference engine over a storage with \<open>strict_update_score_info\<close>.\<close>
  "strict_storage = (audited [])\<lparr>update_score_info := strict_update_score_info\<rparr>"

definition reverting :: "(ref_world, nat, unit) engine" where
  \<comment> \<open>The audited reference engine over contracts whose lifecycle hooks raise.\<close>
  "reverting = (audited [])\<lparr>call_method := (\<lambda>m params w. (Inl (OtherError ''revert''), w))\<rparr>"

definition unannotated :: "(ref_world, nat, unit) engine" where
  \<comment> \<open>The audited reference engine with a type converter that finds no annotations.\<close>
  "unannotated =
     (audited [score_a])\<lparr>make_annotations_from_method := (\<lambda>m. Inl (OtherError ''no annotations''))\<rparr>"

definition to_int :: "pyval \<Rightarrow> pyval" where
  \<comment> \<open>The integer a \<open>0x\<close>-prefixed hexadecimal string stands for; any other value as it is.\<close>
  "to_int v =
     (case v of
        PyStr s \<Rightarrow>
          PyInt (foldl (\<lambda>acc c. 16 * acc + (case hex_value c of None \<Rightarrow> 0 | Some n \<Rightarrow> int n)) 0 (drop 2 s))
      | _ \<Rightarrow> v)"

definition converting :: "(ref_world, nat, unit) engine" where
  \<comment> \<open>The audited reference engine with a type converter for hooks whose parameters are
      all integers: it replaces each value of the parameters by the integer it stands for.\<close>
  "converting =
     (audited [])\<lparr>convert_data_params :=
        (\<lambda>n params. (Inr (), case params of PyDict kw \<Rightarrow> PyDict (map (\<lambda>(k, v). (k, to_int v)) kw) | _ \<Rightarrow> params))\<rparr>"

definition ctx0 :: icon_score_context where
  "ctx0 = \<lparr>tx_origin = eoa_from, tx_hash = [1, 2], tx_index = 0, block_height = 7\<rparr>"

definition zip_data :: data where
  "zip_data = [''contentType'' \<mapsto> PyStr ''application/zip'', ''content'' \<mapsto> PyStr ''0x1234'']"

definition tbears_data :: data where
  "tbears_data = [''contentType'' \<mapsto> PyStr ''application/tbears'', ''content'' \<mapsto> PyStr ''/home/score'']"

definition tbears_params_data :: data where
  \<comment> \<open>A development request with a parameter for \<open>on_install\<close>.\<close>
  "tbears_params_data = tbears_data(''params'' \<mapsto> PyDict [(''value'', PyStr ''0x10'')])"

definition plain_data :: data where
  "plain_data = [''contentType'' \<mapsto> PyStr ''text/plain'', ''content'' \<mapsto> PyStr ''0x1234'']"

definition world0 :: ref_world where
  \<comment> \<open>Nothing is recorded or deployed; the contract at \<open>score_a\<close> can be resolved.\<close>
  "world0 =
     \<lparr>deploy_infos = Map.empty, deploy_tx_params = Map.empty, databases = [],
      instances = [score_a \<mapsto> 5], slots = Map.empty, links = Map.empty\<rparr>"

definition world_recorded :: "data \<Rightarrow> ref_world" where
  \<comment> \<open>The state after the install request of \<open>ctx0\<close> for \<open>score_a\<close> has been recorded.\<close>
  "world_recorded d =
     snd (ref_put_deploy_info_and_tx_params ctx0 score_a INSTALL eoa_from [1, 2] d world0)"

definition world_params_only :: ref_world where
  \<comment> \<open>Transaction parameters are on record for the hash, but no deploy info for the address.\<close>
  "world_params_only =
     world0\<lparr>deploy_tx_params :=
              [[1, 2] \<mapsto> \<lparr>score_address = score_a, deploy_state = INSTALL, deploy_data = zip_data\<rparr>]\<rparr>"

definition world_unresolved :: ref_world where
  \<comment> \<open>No contract instance can be resolved.\<close>
  "world_unresolved = world0\<lparr>instances := Map.empty\<rparr>"

definition world_installed :: "data \<Rightarrow> ref_world" where
  \<comment> \<open>The install request is recorded and the database of \<open>score_a\<close> exists.\<close>
  "world_installed d = (world_recorded d)\<lparr>databases := [score_a]\<rparr>"

definition world_recorded_unresolved :: "data \<Rightarrow> ref_world" where
  \<comment> \<open>The install request is recorded and no contract instance can be resolved.\<close>
  "world_recorded_unresolved d = (world_recorded d)\<lparr>instances := Map.empty\<rparr>"

section \<open>Admission checks\<close>

lemma tx_cost_legacy: "req_version tx = None \<Longrightarrow> tx_cost tx step_price = req_fee tx"
  by (simp add: tx_cost_def)

lemma tx_cost_current:
  "req_version tx = Some n \<Longrightarrow> tx_cost tx step_price = req_step_limit tx * step_price"
  by (simp add: tx_cost_def)

lemma ZERO_SCORE_ADDRESS_neq [simp]:
  "length body \<noteq> 20 \<Longrightarrow> ZERO_SCORE_ADDRESS \<noteq> Address prefix body"
  "length body \<noteq> 20 \<Longrightarrow> Address prefix body \<noteq> ZERO_SCORE_ADDRESS"
  by (auto simp: ZERO_SCORE_ADDRESS_def)

lemma is_contract_ZERO [simp]: "is_contract ZERO_SCORE_ADDRESS"
  by (simp add: ZERO_SCORE_ADDRESS_def)

lemmas admission_defs =
  execute_def check_value_def check_balance_def check_to_def
  validate_new_score_address_on_deploy_transaction_def

text \<open>
  C6, as amended. For every transaction whose value is not negative, \<open>execute\<close> fails with
  \<open>InvalidRequest("Out of balance")\<close> if and only if \<open>balance(from) < value + cost\<close>, where the
  cost is the flat fee of a legacy transaction (no declared version) and
  \<open>step_limit * step_price\<close> of a current-version one; with a balance of at least
  \<open>value + cost\<close> the balance check passes. (A negative value is rejected first, with
  another error.)
\<close>

theorem execute_out_of_balance_iff:
  assumes "0 \<le> req_value tx"
  shows "((execute v tx step_price = Inl (InvalidRequestException (Plain ''Out of balance'')))
            = (get_balance v (req_from tx) < req_value tx + tx_cost tx step_price))
       \<and> (req_version tx = None \<longrightarrow> tx_cost tx step_price = req_fee tx)
       \<and> (req_version tx \<noteq> None \<longrightarrow> tx_cost tx step_price = req_step_limit tx * step_price)
       \<and> (req_value tx + tx_cost tx step_price \<le> get_balance v (req_from tx)
            \<longrightarrow> check_balance v tx step_price = Inr ()
              \<and> execute_to_check_out_of_balance v tx step_price = Inr ())"
proof -
  have "(execute v tx step_price = Inl (InvalidRequestException (Plain ''Out of balance'')))
          = (get_balance v (req_from tx) < req_value tx + tx_cost tx step_price)"
    using assms by (auto simp: admission_defs Let_def split: sum.splits if_splits)
  moreover have "req_version tx \<noteq> None \<longrightarrow> tx_cost tx step_price = req_step_limit tx * step_price"
    by (auto simp: tx_cost_current)
  moreover have "req_value tx + tx_cost tx step_price \<le> get_balance v (req_from tx)
      \<longrightarrow> check_balance v tx step_price = Inr ()
        \<and> execute_to_check_out_of_balance v tx step_price = Inr ()"
    using assms by (simp add: check_balance_def check_value_def execute_to_check_out_of_balance_def)
  ultimately show ?thesis
    by (simp add: tx_cost_legacy)
qed

text \<open>
  Witness for C6: the scenarios of \<open>test_check_balance\<close> and \<open>test_out_of_balance\<close>. A
  current-version request of value 10 with step price 0 is out of balance at balance 0 and
  passes at balance 100; the legacy request of value \<open>10 * 10^18\<close> and fee \<open>10^16\<close> is out of
  balance at balance \<open>10 * 10^18\<close>.
\<close>

theorem execute_out_of_balance_iff_witness:
  "execute (validator_with 0 {}) (request_v3 10) 0
     = Inl (InvalidRequestException (Plain ''Out of balance''))
   \<and> execute (validator_with 100 {}) (request_v3 10) 0
     \<noteq> Inl (InvalidRequestException (Plain ''Out of balance''))
   \<and> check_balance (validator_with 100 {}) (request_v3 10) 0 = Inr ()
   \<and> execute (validator_with (10 * 10 ^ 18) {}) request_legacy 0
     = Inl (InvalidRequestException (Plain ''Out of balance''))
   \<and> tx_cost request_legacy 0 = 10 ^ 16
   \<and> tx_cost (request_v3 10) 1 = 100"
  using execute_out_of_balance_iff [of "request_v3 10" "validator_with 0 {}" 0]
    execute_out_of_balance_iff [of "request_v3 10" "validator_with 100 {}" 0]
    execute_out_of_balance_iff [of "request_v3 10" "validator_with 100 {}" 1]
    execute_out_of_balance_iff [of request_legacy "validator_with (10 * 10 ^ 18) {}" 0]
  by (simp add: request_v3_def request_legacy_def validator_with_def tx_cost_def)

text \<open>
  Counterexample to C6 as stated: a current-version request of value \<open>-10\<close> with step limit
  100 and step price 1 has \<open>balance(from) = 0 < 90 = value + cost\<close>, yet \<open>execute\<close> does not
  fail with "Out of balance": the value check comes first.
\<close>

theorem execute_out_of_balance_counterexample:
  "get_balance (validator_with 0 {}) (req_from (request_v3 (- 10)))
     < req_value (request_v3 (- 10)) + tx_cost (request_v3 (- 10)) 1
   \<and> execute (validator_with 0 {}) (request_v3 (- 10)) 1
     = Inl (InvalidParamsException (Plain ''value < 0''))
   \<and> execute (validator_with 0 {}) (request_v3 (- 10)) 1
     \<noteq> Inl (InvalidRequestException (Plain ''Out of balance''))"
  by (simp add: request_v3_def validator_with_def tx_cost_def execute_def check_value_def)

text \<open>
  C7. For a deploy transaction to the zero-address sentinel the validator recomputes the new
  address from \<open>(from, timestamp, nonce)\<close>. If the store has an entry for that address the
  collision check fails with \<open>InvalidRequest("SCORE address already in use: <address>")\<close>,
  and so does \<open>execute\<close> once the value and balance checks have passed; without an entry the
  check passes; and the same transaction with \<open>to\<close> set to that address, an update rather than
  an install, passes the check.
\<close>

theorem generated_score_address_collision:
  assumes "req_to tx = ZERO_SCORE_ADDRESS" and "req_data_type tx = Some ''deploy''"
    and "a = generate_score_address v (req_from tx) (req_timestamp tx) (req_nonce tx)"
  shows "(a \<in> score_mapper v \<longrightarrow>
            validate_new_score_address_on_deploy_transaction v tx
              = Inl (InvalidRequestException (FString ''SCORE address already in use: '' (I_addr a)))
          \<and> (0 \<le> req_value tx \<and> req_value tx + tx_cost tx step_price \<le> get_balance v (req_from tx)
               \<longrightarrow> execute v tx step_price
                 = Inl (InvalidRequestException (FString ''SCORE address already in use: '' (I_addr a)))))
       \<and> (a \<notin> score_mapper v \<longrightarrow> validate_new_score_address_on_deploy_transaction v tx = Inr ())
       \<and> (a \<noteq> ZERO_SCORE_ADDRESS \<longrightarrow>
            validate_new_score_address_on_deploy_transaction v (tx\<lparr>req_to := a\<rparr>) = Inr ())"
  using assms by (auto simp: admission_defs Let_def)

text \<open>
  Witness for C7: the scenario of \<open>test_validate_generated_score_address\<close>. The request
  passes while the store is empty, fails once the computed address is registered, and passes
  again with \<open>to\<close> set to that address.
\<close>

theorem generated_score_address_collision_witness:
  "req_to request_deploy = ZERO_SCORE_ADDRESS
   \<and> req_data_type request_deploy = Some ''deploy''
   \<and> validate_new_score_address_on_deploy_transaction (validator_with 0 {}) request_deploy = Inr ()
   \<and> validate_new_score_address_on_deploy_transaction (validator_with 0 {score_a}) request_deploy
       = Inl (InvalidRequestException (FString ''SCORE address already in use: '' (I_addr score_a)))
   \<and> execute (validator_with 0 {score_a}) request_deploy 1
       = Inl (InvalidRequestException (FString ''SCORE address already in use: '' (I_addr score_a)))
   \<and> validate_new_score_address_on_deploy_transaction (validator_with 0 {score_a})
        (request_deploy\<lparr>req_to := score_a\<rparr>) = Inr ()"
  using generated_score_address_collision
      [of request_deploy score_a "validator_with 0 {}" 1]
    generated_score_address_collision
      [of request_deploy score_a "validator_with 0 {score_a}" 1]
  by (simp add: request_deploy_def validator_with_def score_a_def tx_cost_def)

text \<open>
  C8. For every transaction with \<open>value < 0\<close>, \<open>execute\<close> fails with
  \<open>InvalidParams("value < 0")\<close>, whatever the sender's balance is: the check comes before the
  balance check.
\<close>

theorem execute_negative_value:
  assumes "req_value tx < 0"
  shows "execute v tx step_price = Inl (InvalidParamsException (Plain ''value < 0''))
       \<and> execute_to_check_out_of_balance v tx step_price
           = Inl (InvalidParamsException (Plain ''value < 0''))"
  using assms by (simp add: execute_def execute_to_check_out_of_balance_def check_value_def)

text \<open>
  Witness for C8: the request of \<open>test_negative_balance\<close> (balance 0, value \<open>-10\<close>), at step
  price 0 and at step price 1, where the balance is insufficient as well.
\<close>

theorem execute_negative_value_witness:
  "req_value (request_v3 (- 10)) < 0
   \<and> execute (validator_with 0 {}) (request_v3 (- 10)) 0
       = Inl (InvalidParamsException (Plain ''value < 0''))
   \<and> get_balance (validator_with 0 {}) (req_from (request_v3 (- 10)))
       < req_value (request_v3 (- 10)) + tx_cost (request_v3 (- 10)) 1
   \<and> execute (validator_with 0 {}) (request_v3 (- 10)) 1
       = Inl (InvalidParamsException (Plain ''value < 0''))"
  using execute_negative_value [of "request_v3 (- 10)" "validator_with 0 {}" 0]
    execute_negative_value [of "request_v3 (- 10)" "validator_with 0 {}" 1]
  by (simp add: request_v3_def validator_with_def tx_cost_def)

section \<open>Reasoning about runs\<close>

lemmas run_defs = outcome_def calls_def world_def

lemma post_returnE [simp]: "post (returnE a) w Q = Q (Inr a) [] w"
  by (simp add: post_def returnE_def run_defs)

lemma post_raiseE [simp]: "post (raiseE x) w Q = Q (Inl x) [] w"
  by (simp add: post_def raiseE_def run_defs)

lemma post_bindE [simp]:
  "post (bindE m f) w Q =
     post m w (\<lambda>r evs w'. case r of Inl x \<Rightarrow> Q (Inl x) evs w'
                          | Inr a \<Rightarrow> post (f a) w' (\<lambda>r' evs'. Q r' (evs @ evs')))"
  by (simp add: post_def bindE_def run_defs split: prod.splits sum.splits)

lemma post_perform [simp]:
  "post (perform ev op) w Q = (\<forall>r w'. op w = (r, w') \<longrightarrow> Q (lift_ext r) [ev r] w')"
  by (simp add: post_def perform_def run_defs split: prod.splits)

lemma post_ask [simp]: "post (ask ev q) w Q = Q (Inr (q w)) [ev (q w)] w"
  by (simp add: post_def ask_def run_defs)

lemma post_attempt [simp]: "post (attempt ev r) w Q = Q (lift_ext r) [ev r] w"
  by (simp add: post_def attempt_def run_defs)

lemma post_in_place [simp]:
  "post (in_place ev r) w Q
     = Q (case fst r of Inl x \<Rightarrow> Inl (External x) | Inr _ \<Rightarrow> Inr (snd r)) [ev (fst r) (snd r)] w"
  by (simp add: post_def in_place_def run_defs)

lemma post_except [simp]:
  "post (except_FileExistsError m) w Q =
     post m w (\<lambda>r. Q (if r = Inl (External FileExistsError) then Inr () else r))"
  by (simp add: post_def except_FileExistsError_def run_defs split: prod.splits)

lemma post_True [simp]: "post m w (\<lambda>r evs w'. True)"
  by (simp add: post_def)


lemma lift_ext_simps [simp]:
  "lift_ext (Inl x) = Inl (External x)" "lift_ext (Inr a) = Inr a"
  by (simp_all add: lift_ext_def)

lemma lift_ext_eq [simp]:
  "(lift_ext r = Inr a) = (r = Inr a)"
  "(lift_ext r = Inl x) = (\<exists>y. r = Inl y \<and> x = External y)"
  "(Inr a = lift_ext r) = (r = Inr a)"
  by (cases r; auto simp: lift_ext_def)+

lemma select_hook_simps [simp]:
  "select_hook INSTALL sc = On_install sc" "select_hook UPDATE sc = On_update sc"
  by (simp_all add: select_hook_def)

subsection \<open>Evaluating the examples\<close>

lemmas ref_defs =
  audited_def unaudited_def ref_engine_def ref_put_deploy_info_and_tx_params_def ref_get_score_owner_def
  ref_update_score_info_def ref_get_icon_score_def ref_deployer_deploy_def ref_symlink_def

lemmas example_defs =
  ctx0_def zip_data_def tbears_data_def plain_data_def world0_def world_recorded_def
  world_params_only_def world_unresolved_def score_a_def eoa_from_def

lemmas variant_defs =
  strict_storage_def strict_update_score_info_def reverting_def unannotated_def converting_def
  tbears_params_data_def world_installed_def world_recorded_unresolved_def

lemmas exec_defs =
  bindE_def returnE_def raiseE_def perform_def ask_def attempt_def in_place_def
  except_FileExistsError_def run_defs Let_def

lemmas engine_defs =
  invoke_def write_deploy_info_and_tx_params_def check_audit_ignore_def deploy_def
  score_deploy_def decode_content_def on_deploy_def link_content_def initialize_score_def
  is_flag_on_def ENABLE_DEPLOY_AUDIT_def dict_get_def dict_get_default_def


section \<open>Missing records\<close>

lemma on_deploy_errors_post:
  "post (on_deploy e ctx st a d) w
     (\<lambda>r evs w'. \<forall>x. r = Inl x \<longrightarrow>
        (\<exists>y. x = External y) \<or> x = InvalidParamsException (FString ''score is None : '' (I_addr a)))"
  unfolding on_deploy_def link_content_def initialize_score_def Let_def
  by (auto split: sum.splits option.splits)

lemma decode_content_errors:
  "decode_content d = Inl x \<Longrightarrow>
     x = KeyError ''content'' \<or> x = ValueError \<or> x = TypeError
     \<or> x = InvalidParamsException (FString ''Invalid contentType: '' (I_val (dict_get d ''contentType'')))"
  by (auto simp: decode_content_def Let_def split: if_splits option.splits pyval.splits)

lemma score_deploy_errors_post:
  "post (score_deploy e ctx st a d) w
     (\<lambda>r evs w'. \<forall>x. r = Inl x \<longrightarrow> (\<exists>y. x = External y)
        \<or> x = InvalidParamsException (FString ''score is None : '' (I_addr a))
        \<or> x = KeyError ''content'' \<or> x = ValueError \<or> x = TypeError
        \<or> x = InvalidParamsException (FString ''Invalid contentType: '' (I_val (dict_get d ''contentType''))))"
proof (cases "decode_content d")
  case (Inl x)
  then show ?thesis
    using decode_content_errors [OF Inl] by (auto simp: score_deploy_def)
next
  case (Inr d')
  then show ?thesis
    using on_deploy_errors_post [of e ctx st a d' w] by (auto simp: score_deploy_def post_def)
qed

text \<open>
  C4, as amended. \<open>deploy(context, tx_hash)\<close> raises \<open>InvalidParams\<close> when the storage holds
  no \<open>TxDeployParams\<close> for the hash. When it holds them, \<open>update_score_info\<close> is called
  first: if that call raises, \<open>deploy\<close> raises its exception; if it returns and the storage
  then holds no \<open>DeployInfo\<close> for the score address of those parameters, \<open>deploy\<close> raises
  \<open>InvalidParams\<close>. When both records exist, the \<open>DeployInfo\<close> after \<open>update_score_info\<close>,
  neither of the two \<open>InvalidParams\<close> errors is raised, whatever \<open>update_score_info\<close> answers
  and whatever follows.
\<close>

theorem deploy_missing_records:
  "(get_deploy_tx_params e ctx h w = None \<longrightarrow>
      outcome (deploy e ctx h w)
        = Inl (InvalidParamsException (FString ''tx_params is None : '' (I_bytes h))))
   \<and> (get_deploy_tx_params e ctx h w = Some tp
        \<and> update_score_info e ctx (score_address tp) h w = (Inl z, w1) \<longrightarrow>
      outcome (deploy e ctx h w) = Inl (External z))
   \<and> (get_deploy_tx_params e ctx h w = Some tp
        \<and> update_score_info e ctx (score_address tp) h w = (Inr (), w1)
        \<and> get_deploy_info e ctx (score_address tp) w1 = None \<longrightarrow>
      outcome (deploy e ctx h w)
        = Inl (InvalidParamsException (FString ''deploy_info is None : '' (I_addr (score_address tp)))))
   \<and> (get_deploy_tx_params e ctx h w = Some tp
        \<and> update_score_info e ctx (score_address tp) h w = (r, w1)
        \<and> get_deploy_info e ctx (score_address tp) w1 = Some di \<longrightarrow>
      outcome (deploy e ctx h w) \<noteq> Inl (InvalidParamsException (FString ''tx_params is None : '' v))
      \<and> outcome (deploy e ctx h w) \<noteq> Inl (InvalidParamsException (FString ''deploy_info is None : '' v)))"
proof -
  have none: "outcome (deploy e ctx h w)
      = Inl (InvalidParamsException (FString ''tx_params is None : '' (I_bytes h)))"
    if "get_deploy_tx_params e ctx h w = None"
  proof -
    have "post (deploy e ctx h) w
        (\<lambda>r evs w'. r = Inl (InvalidParamsException (FString ''tx_params is None : '' (I_bytes h))))"
      using that by (simp add: deploy_def Let_def)
    then show ?thesis by (simp add: post_def)
  qed
  have raised: "outcome (deploy e ctx h w) = Inl (External z)"
    if "get_deploy_tx_params e ctx h w = Some tp
        \<and> update_score_info e ctx (score_address tp) h w = (Inl z, w1)"
  proof -
    have "post (deploy e ctx h) w (\<lambda>r evs w'. r = Inl (External z))"
      using that by (simp add: deploy_def Let_def)
    then show ?thesis by (simp add: post_def)
  qed
  have no_info: "outcome (deploy e ctx h w)
      = Inl (InvalidParamsException (FString ''deploy_info is None : '' (I_addr (score_address tp))))"
    if "get_deploy_tx_params e ctx h w = Some tp
        \<and> update_score_info e ctx (score_address tp) h w = (Inr (), w1)
        \<and> get_deploy_info e ctx (score_address tp) w1 = None"
  proof -
    have "post (deploy e ctx h) w
        (\<lambda>r evs w'. r = Inl (InvalidParamsException
           (FString ''deploy_info is None : '' (I_addr (score_address tp)))))"
      using that by (simp add: deploy_def Let_def)
    then show ?thesis by (simp add: post_def)
  qed
  have both: "outcome (deploy e ctx h w) \<noteq> Inl (InvalidParamsException (FString ''tx_params is None : '' v))
      \<and> outcome (deploy e ctx h w) \<noteq> Inl (InvalidParamsException (FString ''deploy_info is None : '' v))"
    if a: "get_deploy_tx_params e ctx h w = Some tp
        \<and> update_score_info e ctx (score_address tp) h w = (r, w1)
        \<and> get_deploy_info e ctx (score_address tp) w1 = Some di"
  proof -
    have "post (deploy e ctx h) w (\<lambda>r evs w'.
         r \<noteq> Inl (InvalidParamsException (FString ''tx_params is None : '' v))
       \<and> r \<noteq> Inl (InvalidParamsException (FString ''deploy_info is None : '' v)))"
      using a score_deploy_errors_post [of e ctx "deploy_state tp" "score_address tp" "deploy_data tp" w1]
      by (cases r)
        (auto simp: deploy_def Let_def
           post_def [of "score_deploy e ctx (deploy_state tp) (score_address tp) (deploy_data tp)"])
    then show ?thesis by (simp add: post_def)
  qed
  show ?thesis
    using none raised no_info both by blast
qed

text \<open>
  Counterexample to C4 as stated, on a storage whose \<open>update_score_info\<close> raises for an
  address without a \<open>DeployInfo\<close>: the parameters of the hash are on record, no \<open>DeployInfo\<close>
  exists for their score address before or after the call, and \<open>deploy\<close> raises the storage's
  exception, not \<open>InvalidParams\<close>.
\<close>

theorem deploy_missing_records_counterexample:
  "get_deploy_tx_params strict_storage ctx0 [1, 2] world_params_only
     = Some \<lparr>score_address = score_a, deploy_state = INSTALL, deploy_data = zip_data\<rparr>
   \<and> get_deploy_info strict_storage ctx0 score_a world_params_only = None
   \<and> outcome (deploy strict_storage ctx0 [1, 2] world_params_only)
       = Inl (External (OtherError ''deploy_info is None''))
   \<and> get_deploy_info strict_storage ctx0 score_a
        (world (deploy strict_storage ctx0 [1, 2] world_params_only)) = None"
  by (simp add: engine_defs exec_defs ref_defs variant_defs world_params_only_def world0_def
      score_a_def ctx0_def)

text \<open>
  Witness for C4: on the reference collaborators, nothing recorded for the hash; parameters
  recorded without a deploy info; both recorded. On the storage whose \<open>update_score_info\<close>
  raises, the exception of that call.
\<close>

theorem deploy_missing_records_witness:
  "get_deploy_tx_params (audited []) ctx0 [1, 2] world0 = None
   \<and> outcome (deploy (audited []) ctx0 [1, 2] world0)
       = Inl (InvalidParamsException (FString ''tx_params is None : '' (I_bytes [1, 2])))
   \<and> get_deploy_info (audited []) ctx0 score_a world_params_only = None
   \<and> outcome (deploy (audited []) ctx0 [1, 2] world_params_only)
       = Inl (InvalidParamsException (FString ''deploy_info is None : '' (I_addr score_a)))
   \<and> get_deploy_info (audited []) ctx0 score_a (world_recorded zip_data) \<noteq> None
   \<and> outcome (deploy (audited []) ctx0 [1, 2] (world_recorded zip_data))
       \<noteq> Inl (InvalidParamsException (FString ''deploy_info is None : '' (I_addr score_a)))
   \<and> update_score_info strict_storage ctx0 score_a [1, 2] world_params_only
       = (Inl (OtherError ''deploy_info is None''), world_params_only)
   \<and> outcome (deploy strict_storage ctx0 [1, 2] world_params_only)
       = Inl (External (OtherError ''deploy_info is None''))"
  using deploy_missing_records
      [where e = "audited []" and ctx = ctx0 and h = "[1, 2]" and w = world0]
    deploy_missing_records
      [where e = "audited []" and ctx = ctx0 and h = "[1, 2]" and w = world_params_only
         and tp = "\<lparr>score_address = score_a, deploy_state = INSTALL, deploy_data = zip_data\<rparr>"
         and ?w1.0 = world_params_only]
    deploy_missing_records
      [where e = "audited []" and ctx = ctx0 and h = "[1, 2]" and w = "world_recorded zip_data"
         and tp = "\<lparr>score_address = score_a, deploy_state = INSTALL, deploy_data = zip_data\<rparr>"
         and ?w1.0 = "snd (ref_update_score_info ctx0 score_a [1, 2] (world_recorded zip_data))"
         and r = "Inr ()"
         and di = "\<lparr>owner = eoa_from, current_tx_hash = Some [1, 2], next_tx_hash = None\<rparr>"
         and v = "I_addr score_a"]
    deploy_missing_records
      [where e = strict_storage and ctx = ctx0 and h = "[1, 2]" and w = world_params_only
         and tp = "\<lparr>score_address = score_a, deploy_state = INSTALL, deploy_data = zip_data\<rparr>"
         and ?w1.0 = world_params_only and z = "OtherError ''deploy_info is None''"]
  by (simp add: ref_defs example_defs variant_defs)

section \<open>Content types\<close>

lemma tbears_target:
  "path_join ''/score'' (ref_to_bytes_hex score_a) = ''/score/0a''"
  "path_join (path_join ''/score'' (ref_to_bytes_hex score_a)) (slot_name 7 0) = ''/score/0a/7_0''"
  by code_simp+

lemma converted_None_iff:
  "(converted evs = None) = (\<forall>n p r left. Convert_data_params n p r left \<notin> set evs)"
  by (induction evs rule: converted.induct) auto

lemma on_deploy_params_post:
  "post (on_deploy e ctx st a d) w
     (\<lambda>r evs w'. \<forall>n p r' left. Convert_data_params n p r' left \<in> set evs \<longrightarrow>
        Is_exist_db a False \<in> set evs
        \<and> (\<exists>sc. Get_icon_score a (Inr (Some sc)) \<in> set evs
              \<and> Make_annotations_from_method (select_hook st sc) (Inr n) \<in> set evs)
        \<and> p = dict_get_default d ''params'' (PyDict [])
        \<and> (r', left) = convert_data_params e n p
        \<and> converted evs = Some left)"
  unfolding on_deploy_def link_content_def initialize_score_def Let_def
  by (auto split: sum.splits option.splits)

lemma score_deploy_params_post:
  "post (score_deploy e ctx st a d) w
     (\<lambda>r evs w'. \<forall>n p r' left. Convert_data_params n p r' left \<in> set evs \<longrightarrow>
        Is_exist_db a False \<in> set evs
        \<and> (\<exists>sc. Get_icon_score a (Inr (Some sc)) \<in> set evs
              \<and> Make_annotations_from_method (select_hook st sc) (Inr n) \<in> set evs)
        \<and> p = dict_get_default d ''params'' (PyDict [])
        \<and> (r', left) = convert_data_params e n p
        \<and> converted evs = Some left)"
proof (cases "decode_content d")
  case (Inl x)
  then show ?thesis by (simp add: score_deploy_def)
next
  case (Inr d')
  then have "dict_get_default d' ''params'' (PyDict []) = dict_get_default d ''params'' (PyDict [])"
    by (auto simp: decode_content_def dict_get_default_def Let_def
        split: if_splits option.splits pyval.splits)
  then show ?thesis
    using Inr on_deploy_params_post [of e ctx st a d' w] by (simp add: score_deploy_def)
qed

lemma data_after_frame:
  "k \<noteq> ''content'' \<Longrightarrow> k \<noteq> ''params'' \<Longrightarrow> data_after d evs k = d k"
  by (auto simp: data_after_def decode_content_def Let_def
      split: option.splits pyval.splits if_splits)

lemma data_after_content:
  "data_after d evs ''content''
     = (case decode_content d of Inl _ \<Rightarrow> d ''content'' | Inr d' \<Rightarrow> d' ''content'')"
  by (auto simp: data_after_def Let_def split: option.splits sum.splits)

lemma data_after_params:
  "data_after d evs ''params''
     = (case (d ''params'', converted evs) of (Some _, Some left) \<Rightarrow> Some left | _ \<Rightarrow> d ''params'')"
  by (auto simp: data_after_def decode_content_def Let_def
      split: option.splits pyval.splits if_splits)

text \<open>
  C10, as amended. \<open>_score_deploy\<close> changes its caller's dictionary in place. For the content
  type \<open>application/zip\<close> it rebinds the key \<open>content\<close> to the decoded bytes, and
  \<open>_on_deploy\<close> runs on the changed dictionary; for \<open>application/tbears\<close> it leaves \<open>content\<close>
  as it was; when it raises before \<open>_on_deploy\<close>, it has made no call and the dictionary is
  as it was. Every key other than \<open>content\<close> and \<open>params\<close> is bound as before. The object
  bound to \<open>params\<close> is as before unless the type converter's \<open>convert_data_params\<close> was
  called; it is called only in the initialization of the lifecycle hook (the database
  check answered that no database exists, the instance resolved, the annotations were
  obtained), on the object bound to \<open>params\<close>, or on a new empty dictionary when the key is
  absent; then the key \<open>params\<close>, if present, is bound to the parameters as the converter
  left them.
\<close>

theorem score_deploy_data_frame:
  "(let evs = calls (score_deploy e ctx st a d w); d' = data_after d evs in
      (k \<noteq> ''content'' \<and> k \<noteq> ''params'' \<longrightarrow> d' k = d k)
    \<and> (dict_get d ''contentType'' = PyStr ''application/tbears'' \<longrightarrow>
         d' ''content'' = d ''content'' \<and> score_deploy e ctx st a d = on_deploy e ctx st a d)
    \<and> (dict_get d ''contentType'' = PyStr ''application/zip''
         \<and> d ''content'' = Some (PyStr hex) \<and> fromhex (drop 2 hex) = Some raw \<longrightarrow>
         d' ''content'' = Some (PyBytes raw)
         \<and> score_deploy e ctx st a d = on_deploy e ctx st a (d(''content'' \<mapsto> PyBytes raw)))
    \<and> (decode_content d = Inl y \<longrightarrow> evs = [] \<and> d' = d)
    \<and> (d ''params'' = None \<longrightarrow> d' ''params'' = None)
    \<and> ((\<forall>n p r left. Convert_data_params n p r left \<notin> set evs) \<longrightarrow> d' ''params'' = d ''params'')
    \<and> (Convert_data_params n p r left \<in> set evs \<longrightarrow>
         Is_exist_db a False \<in> set evs
         \<and> (\<exists>sc. Get_icon_score a (Inr (Some sc)) \<in> set evs
               \<and> Make_annotations_from_method
                    (case st of INSTALL \<Rightarrow> On_install sc | UPDATE \<Rightarrow> On_update sc) (Inr n) \<in> set evs)
         \<and> p = dict_get_default d ''params'' (PyDict [])
         \<and> (r, left) = convert_data_params e n p
         \<and> (d ''params'' \<noteq> None \<longrightarrow> d' ''params'' = Some left)))"
proof -
  let ?evs = "calls (score_deploy e ctx st a d w)"
  let ?d' = "data_after d ?evs"
  have frame: "?d' k = d k" if "k \<noteq> ''content'' \<and> k \<noteq> ''params''"
    using that by (simp add: data_after_frame)
  have tbears: "?d' ''content'' = d ''content'' \<and> score_deploy e ctx st a d = on_deploy e ctx st a d"
    if "dict_get d ''contentType'' = PyStr ''application/tbears''"
    using that by (simp add: data_after_content decode_content_def score_deploy_def)
  have zip: "?d' ''content'' = Some (PyBytes raw)
         \<and> score_deploy e ctx st a d = on_deploy e ctx st a (d(''content'' \<mapsto> PyBytes raw))"
    if "dict_get d ''contentType'' = PyStr ''application/zip''
         \<and> d ''content'' = Some (PyStr hex) \<and> fromhex (drop 2 hex) = Some raw"
    using that by (simp add: data_after_content decode_content_def score_deploy_def)
  have refused: "?evs = [] \<and> ?d' = d" if "decode_content d = Inl y"
    using that by (simp add: score_deploy_def raiseE_def calls_def data_after_def split: option.splits)
  have absent: "?d' ''params'' = None" if "d ''params'' = None"
    using that by (simp add: data_after_params)
  have untouched: "?d' ''params'' = d ''params''"
    if "\<forall>n p r left. Convert_data_params n p r left \<notin> set ?evs"
    using that converted_None_iff [of ?evs] by (simp add: data_after_params split: option.splits)
  have conv: "Is_exist_db a False \<in> set ?evs
         \<and> (\<exists>sc. Get_icon_score a (Inr (Some sc)) \<in> set ?evs
               \<and> Make_annotations_from_method
                    (case st of INSTALL \<Rightarrow> On_install sc | UPDATE \<Rightarrow> On_update sc) (Inr n) \<in> set ?evs)
         \<and> p = dict_get_default d ''params'' (PyDict [])
         \<and> (r, left) = convert_data_params e n p
         \<and> (d ''params'' \<noteq> None \<longrightarrow> ?d' ''params'' = Some left)"
    if c: "Convert_data_params n p r left \<in> set ?evs"
  proof -
    note q = score_deploy_params_post [of e ctx st a d w, unfolded post_def select_hook_def]
    from q c have 1: "Is_exist_db a False \<in> set ?evs
         \<and> (\<exists>sc. Get_icon_score a (Inr (Some sc)) \<in> set ?evs
               \<and> Make_annotations_from_method
                    (case st of INSTALL \<Rightarrow> On_install sc | UPDATE \<Rightarrow> On_update sc) (Inr n) \<in> set ?evs)
         \<and> p = dict_get_default d ''params'' (PyDict [])
         \<and> (r, left) = convert_data_params e n p
         \<and> converted ?evs = Some left"
      by blast
    then have "d ''params'' \<noteq> None \<longrightarrow> ?d' ''params'' = Some left"
      by (auto simp: data_after_params)
    with 1 show ?thesis by blast
  qed
  show ?thesis
    unfolding Let_def using frame tbears zip refused absent untouched conv by blast
qed

text \<open>
  Counterexample to C10 as stated, with a type converter that turns the parameters into
  integers: a development request with the parameter \<open>value = '0x10'\<close> is deployed, and
  afterwards the caller's dictionary holds the integer 16 under \<open>params\<close>, so the
  dictionary is not as it was.
\<close>

theorem score_deploy_data_frame_counterexample:
  "dict_get tbears_params_data ''contentType'' = PyStr ''application/tbears''
   \<and> tbears_params_data ''params'' = Some (PyDict [(''value'', PyStr ''0x10'')])
   \<and> data_after tbears_params_data
        (calls (score_deploy converting ctx0 INSTALL score_a tbears_params_data world0)) ''params''
       = Some (PyDict [(''value'', PyInt 16)])
   \<and> data_after tbears_params_data
        (calls (score_deploy converting ctx0 INSTALL score_a tbears_params_data world0))
       \<noteq> tbears_params_data"
proof -
  have run: "calls (score_deploy converting ctx0 INSTALL score_a tbears_params_data world0)
     = [Delete_icon_score score_a (Inr ()),
        Makedirs ''/score/0a'' (Inr ()),
        Symlink (PyStr ''/home/score'') ''/score/0a/7_0'' (Inr ()),
        Deployer_deploy score_a (PyStr ''/home/score'') 7 0 (Inr ()),
        Is_exist_db score_a False,
        Get_icon_score score_a (Inr (Some 5)),
        Make_annotations_from_method (On_install 5) (Inr ()),
        Convert_data_params () (PyDict [(''value'', PyStr ''0x10'')]) (Inr ())
          (PyDict [(''value'', PyInt 16)]),
        Call_method (On_install 5) (PyDict [(''value'', PyInt 16)]) (Inr ())]"
    using tbears_target
    by (simp add: engine_defs exec_defs ref_defs variant_defs world0_def ctx0_def tbears_data_def
        to_int_def hex_value_def)
  have p: "tbears_params_data ''params'' = Some (PyDict [(''value'', PyStr ''0x10'')])"
    by (simp add: tbears_params_data_def)
  have ct: "dict_get tbears_params_data ''contentType'' = PyStr ''application/tbears''"
    by (simp add: tbears_params_data_def tbears_data_def dict_get_def)
  have after: "data_after tbears_params_data
        (calls (score_deploy converting ctx0 INSTALL score_a tbears_params_data world0)) ''params''
       = Some (PyDict [(''value'', PyInt 16)])"
    unfolding run by (simp add: data_after_params p)
  have "data_after tbears_params_data
        (calls (score_deploy converting ctx0 INSTALL score_a tbears_params_data world0)) ''params''
       \<noteq> tbears_params_data ''params''"
    unfolding after p by simp
  then have "data_after tbears_params_data
        (calls (score_deploy converting ctx0 INSTALL score_a tbears_params_data world0))
       \<noteq> tbears_params_data"
    by metis
  with ct p after show ?thesis by blast
qed

text \<open>
  Witness for C10: on the reference collaborators, whose converter leaves the parameters
  as they are, a development request keeps its content and the packaged request of the
  validator's test has \<open>0x1234\<close> replaced by the two bytes and its content type kept; with
  the converter to integers, the converter is called on the parameters of the development
  request and the dictionary holds what it left.
\<close>

theorem score_deploy_data_frame_witness:
  "data_after tbears_data (calls (score_deploy (audited []) ctx0 INSTALL score_a tbears_data world0))
        ''content''
       = tbears_data ''content''
   \<and> data_after zip_data (calls (score_deploy (audited []) ctx0 INSTALL score_a zip_data world0))
        ''contentType''
       = Some (PyStr ''application/zip'')
   \<and> data_after zip_data (calls (score_deploy (audited []) ctx0 INSTALL score_a zip_data world0))
        ''content''
       = Some (PyBytes [0x12, 0x34])
   \<and> data_after zip_data (calls (score_deploy (audited []) ctx0 INSTALL score_a zip_data world0))
        ''params''
       = None
   \<and> Convert_data_params () (PyDict [(''value'', PyStr ''0x10'')]) (Inr ())
          (PyDict [(''value'', PyInt 16)])
       \<in> set (calls (score_deploy converting ctx0 INSTALL score_a tbears_params_data world0))
   \<and> Is_exist_db score_a False
       \<in> set (calls (score_deploy converting ctx0 INSTALL score_a tbears_params_data world0))
   \<and> data_after tbears_params_data
        (calls (score_deploy converting ctx0 INSTALL score_a tbears_params_data world0)) ''params''
       = Some (PyDict [(''value'', PyInt 16)])"
proof -
  note tb = score_deploy_data_frame
      [where d = tbears_data and e = "audited []" and ctx = ctx0 and st = INSTALL and a = score_a
         and w = world0, unfolded Let_def]
  note zp = score_deploy_data_frame
      [where d = zip_data and hex = "''0x1234''" and raw = "[0x12, 0x34]" and k = "''contentType''"
         and e = "audited []" and ctx = ctx0 and st = INSTALL and a = score_a and w = world0,
       unfolded Let_def]
  note cv = score_deploy_data_frame
      [where d = tbears_params_data and e = converting and ctx = ctx0 and st = INSTALL
         and a = score_a and w = world0 and n = "()"
         and p = "PyDict [(''value'', PyStr ''0x10'')]" and r = "Inr ()"
         and left = "PyDict [(''value'', PyInt 16)]", unfolded Let_def]
  have d: "dict_get tbears_data ''contentType'' = PyStr ''application/tbears''"
    "dict_get zip_data ''contentType'' = PyStr ''application/zip''"
    "zip_data ''content'' = Some (PyStr ''0x1234'')"
    "zip_data ''contentType'' = Some (PyStr ''application/zip'')"
    "zip_data ''params'' = None"
    "fromhex (drop 2 ''0x1234'') = Some [0x12, 0x34]"
    "tbears_params_data ''params'' \<noteq> None"
    by (simp_all add: zip_data_def tbears_data_def tbears_params_data_def dict_get_def
        hex_value_def is_space_def)
  have run: "Convert_data_params () (PyDict [(''value'', PyStr ''0x10'')]) (Inr ())
          (PyDict [(''value'', PyInt 16)])
       \<in> set (calls (score_deploy converting ctx0 INSTALL score_a tbears_params_data world0))"
    using tbears_target
    by (simp add: engine_defs exec_defs ref_defs variant_defs world0_def ctx0_def tbears_data_def
        to_int_def hex_value_def)
  have 1: "data_after tbears_data (calls (score_deploy (audited []) ctx0 INSTALL score_a tbears_data world0))
        ''content'' = tbears_data ''content''"
    using tb d(1) by blast
  have 2: "data_after zip_data (calls (score_deploy (audited []) ctx0 INSTALL score_a zip_data world0))
        ''contentType'' = Some (PyStr ''application/zip'')"
    using zp [THEN conjunct1] d(4) by simp
  have 3: "data_after zip_data (calls (score_deploy (audited []) ctx0 INSTALL score_a zip_data world0))
        ''content'' = Some (PyBytes [0x12, 0x34])"
    using zp d(2,3,6) by blast
  have 4: "data_after zip_data (calls (score_deploy (audited []) ctx0 INSTALL score_a zip_data world0))
        ''params'' = None"
    using zp d(5) by blast
  have 5: "Is_exist_db score_a False
       \<in> set (calls (score_deploy converting ctx0 INSTALL score_a tbears_params_data world0))"
    using cv run by blast
  have 6: "data_after tbears_params_data
        (calls (score_deploy converting ctx0 INSTALL score_a tbears_params_data world0)) ''params''
       = Some (PyDict [(''value'', PyInt 16)])"
    using cv run d(7) by blast
  show ?thesis
    using 1 2 3 4 run 5 6 by blast
qed







section \<open>The audit gate of invoke\<close>

lemma is_flag_on_audit: "is_flag_on e ENABLE_DEPLOY_AUDIT = odd (flags e)"
  by (simp add: is_flag_on_def ENABLE_DEPLOY_AUDIT_def and_one_eq mod_2_eq_odd)

lemma deploy_first_call_post:
  "post (deploy e ctx h) w
     (\<lambda>r evs w'. \<exists>rest. evs = Get_deploy_tx_params h (get_deploy_tx_params e ctx h w) # rest)"
  by (simp add: deploy_def)

lemma invoke_run:
  assumes "put_deploy_info_and_tx_params e ctx a (if to = ZERO_SCORE_ADDRESS then INSTALL else UPDATE)
             (tx_origin ctx) (tx_hash ctx) d w = (Inr (), w1)"
  shows "invoke e ctx to a d w =
     (let head = [Put_deploy_info_and_tx_params a (if to = ZERO_SCORE_ADDRESS then INSTALL else UPDATE)
                    (tx_origin ctx) (tx_hash ctx) d (Inr ()),
                  Get_score_owner a (get_score_owner e ctx a w1)]
      in if \<not> is_flag_on e ENABLE_DEPLOY_AUDIT
            \<or> (is_builtin_score e a \<and> get_score_owner e ctx a w1 = Some (tx_origin ctx))
         then (outcome (deploy e ctx (tx_hash ctx) w1), head @ calls (deploy e ctx (tx_hash ctx) w1),
               world (deploy e ctx (tx_hash ctx) w1))
         else (Inr (), head, w1))"
  using assms
  by (auto simp: invoke_def write_deploy_info_and_tx_params_def check_audit_ignore_def Let_def
        bindE_def perform_def ask_def returnE_def run_defs split: prod.splits sum.splits)

text \<open>
  C1. For every call to \<open>invoke\<close> in which the deploy info and transaction parameters have
  been written, \<open>deploy(context, context.tx.hash)\<close> is called within the same invocation
  (its first call, the lookup of the parameters of that hash, is made) if and only if the
  \<open>ENABLE_DEPLOY_AUDIT\<close> flag is off, or the address is a built-in score address and the
  transaction origin is the owner the storage has on record for it. Then \<open>invoke\<close> ends as
  that \<open>deploy\<close> ends; otherwise it returns after the write and the owner lookup, with
  nothing deployed.
\<close>

theorem invoke_deploys_iff_audit_ignored:
  assumes "put_deploy_info_and_tx_params e ctx a (if to = ZERO_SCORE_ADDRESS then INSTALL else UPDATE)
             (tx_origin ctx) (tx_hash ctx) d w = (Inr (), w1)"
    and "ignore = (\<not> is_flag_on e ENABLE_DEPLOY_AUDIT
            \<or> (is_builtin_score e a \<and> get_score_owner e ctx a w1 = Some (tx_origin ctx)))"
  shows "((\<exists>tp. Get_deploy_tx_params (tx_hash ctx) tp \<in> set (calls (invoke e ctx to a d w))) = ignore)
       \<and> outcome (invoke e ctx to a d w)
           = (if ignore then outcome (deploy e ctx (tx_hash ctx) w1) else Inr ())
       \<and> world (invoke e ctx to a d w)
           = (if ignore then world (deploy e ctx (tx_hash ctx) w1) else w1)
       \<and> calls (invoke e ctx to a d w)
           = [Put_deploy_info_and_tx_params a (if to = ZERO_SCORE_ADDRESS then INSTALL else UPDATE)
                (tx_origin ctx) (tx_hash ctx) d (Inr ()),
              Get_score_owner a (get_score_owner e ctx a w1)]
             @ (if ignore then calls (deploy e ctx (tx_hash ctx) w1) else [])"
  using deploy_first_call_post [of e ctx "tx_hash ctx" w1] assms(2)
  unfolding invoke_run [OF assms(1)] post_def
  by (auto simp: run_defs Let_def)

lemma put_recorded:
  "put_deploy_info_and_tx_params (ref_engine fl bs) ctx0 score_a
     (if ZERO_SCORE_ADDRESS = ZERO_SCORE_ADDRESS then INSTALL else UPDATE)
     (tx_origin ctx0) (tx_hash ctx0) d world0 = (Inr (), world_recorded d)"
  by (simp add: ref_defs world_recorded_def ctx0_def)

lemmas put_recorded_audited = put_recorded [of ENABLE_DEPLOY_AUDIT, folded audited_def]
lemmas put_recorded_unaudited = put_recorded [of 0, folded unaudited_def]

text \<open>
  Witness for C1, on the reference collaborators, for an install request of \<open>eoa_from\<close>:
  with the audit flag on and no built-in address the request stays pending; with the flag
  off, or with the flag on for a built-in address owned by the sender, \<open>deploy\<close> is called.
\<close>

theorem invoke_deploys_iff_audit_ignored_witness:
  "is_flag_on (audited []) ENABLE_DEPLOY_AUDIT
   \<and> calls (invoke (audited []) ctx0 ZERO_SCORE_ADDRESS score_a zip_data world0)
       = [Put_deploy_info_and_tx_params score_a INSTALL eoa_from [1, 2] zip_data (Inr ()),
          Get_score_owner score_a (Some eoa_from)]
   \<and> outcome (invoke (audited []) ctx0 ZERO_SCORE_ADDRESS score_a zip_data world0) = Inr ()
   \<and> world (invoke (audited []) ctx0 ZERO_SCORE_ADDRESS score_a zip_data world0)
       = world_recorded zip_data
   \<and> \<not> is_flag_on (unaudited []) ENABLE_DEPLOY_AUDIT
   \<and> (\<exists>tp. Get_deploy_tx_params [1, 2] tp
         \<in> set (calls (invoke (unaudited []) ctx0 ZERO_SCORE_ADDRESS score_a zip_data world0)))
   \<and> (\<exists>tp. Get_deploy_tx_params [1, 2] tp
         \<in> set (calls (invoke (audited [score_a]) ctx0 ZERO_SCORE_ADDRESS score_a zip_data world0)))"
proof -
  have owner: "get_score_owner (audited bs) ctx0 score_a (world_recorded zip_data) = Some eoa_from"
    for bs
    by (simp add: ref_defs world_recorded_def world0_def)
  have ctx: "tx_origin ctx0 = eoa_from" "tx_hash ctx0 = [1, 2]"
    by (simp_all add: ctx0_def)
  have builtin: "is_builtin_score (audited bs) x = (x \<in> set bs)" for bs x
    by (simp add: ref_defs)
  have on: "is_flag_on (audited bs) ENABLE_DEPLOY_AUDIT" for bs
    by (simp add: is_flag_on_def ref_defs)
  have off: "\<not> is_flag_on (unaudited bs) ENABLE_DEPLOY_AUDIT" for bs
    by (simp add: is_flag_on_def ENABLE_DEPLOY_AUDIT_def ref_defs)
  have pending: "calls (invoke (audited []) ctx0 ZERO_SCORE_ADDRESS score_a zip_data world0)
       = [Put_deploy_info_and_tx_params score_a INSTALL eoa_from [1, 2] zip_data (Inr ()),
          Get_score_owner score_a (Some eoa_from)]
     \<and> outcome (invoke (audited []) ctx0 ZERO_SCORE_ADDRESS score_a zip_data world0) = Inr ()
     \<and> world (invoke (audited []) ctx0 ZERO_SCORE_ADDRESS score_a zip_data world0)
       = world_recorded zip_data"
    using invoke_deploys_iff_audit_ignored [OF put_recorded_audited [of "[]" zip_data] refl]
    by (simp add: owner ctx builtin on)
  have audit_off: "\<exists>tp. Get_deploy_tx_params [1, 2] tp
         \<in> set (calls (invoke (unaudited []) ctx0 ZERO_SCORE_ADDRESS score_a zip_data world0))"
    using invoke_deploys_iff_audit_ignored
      [OF put_recorded_unaudited [of "[]" zip_data] refl, THEN conjunct1]
    by (simp add: off ctx)
  have builtin_owner: "\<exists>tp. Get_deploy_tx_params [1, 2] tp
         \<in> set (calls (invoke (audited [score_a]) ctx0 ZERO_SCORE_ADDRESS score_a zip_data world0))"
    using invoke_deploys_iff_audit_ignored
      [OF put_recorded_audited [of "[score_a]" zip_data] refl, THEN conjunct1]
    by (simp add: owner ctx builtin on)
  show ?thesis
    using pending audit_off builtin_owner on off by simp
qed

section \<open>Lifecycle hooks\<close>












section \<open>Failed deploys\<close>

lemma keeps_storeD:
  assumes "keeps_store store e"
  shows "delete_icon_score e a w = (r, w') \<Longrightarrow> store w' = store w"
    and "get_icon_score e ctx a w = (r1, w') \<Longrightarrow> store w' = store w"
    and "deployer_deploy e a c height index w = (r, w') \<Longrightarrow> store w' = store w"
    and "makedirs e p w = (r, w') \<Longrightarrow> store w' = store w"
    and "symlink e c t w = (r, w') \<Longrightarrow> store w' = store w"
    and "call_method e m q w = (r, w') \<Longrightarrow> store w' = store w"
  using assms unfolding keeps_store_def by (metis snd_conv)+

lemma on_deploy_no_write_post:
  "post (on_deploy e ctx st a d) w (\<lambda>r evs w'. \<forall>ev \<in> set evs. \<not> storage_write ev)"
  unfolding on_deploy_def link_content_def initialize_score_def Let_def
  by (auto split: sum.splits option.splits)

lemma on_deploy_store_post:
  assumes "keeps_store store e"
  shows "post (on_deploy e ctx st a d) w (\<lambda>r evs w'. store w' = store w)"
  unfolding on_deploy_def link_content_def initialize_score_def Let_def
  by (auto split: sum.splits option.splits dest!: keeps_storeD [OF assms])

lemma score_deploy_store_post:
  "post (score_deploy e ctx st a d) w
     (\<lambda>r evs w'. (\<forall>ev \<in> set evs. \<not> storage_write ev) \<and> (keeps_store store e \<longrightarrow> store w' = store w))"
proof (cases "decode_content d")
  case (Inl x)
  then show ?thesis by (simp add: score_deploy_def)
next
  case (Inr d')
  then show ?thesis
    using on_deploy_no_write_post [of e ctx st a d' w] on_deploy_store_post [of store e ctx st a d' w]
    by (auto simp: score_deploy_def post_def)
qed

lemma deploy_failure_post:
  "post (deploy e ctx h) w
     (\<lambda>r evs w'.
        (get_deploy_tx_params e ctx h w = None \<longrightarrow> w' = w \<and> evs = [Get_deploy_tx_params h None])
      \<and> (\<forall>tp x w1. get_deploy_tx_params e ctx h w = Some tp
             \<and> update_score_info e ctx (score_address tp) h w = (x, w1) \<longrightarrow>
           (\<exists>rest. evs = Get_deploy_tx_params h (Some tp) # Update_score_info (score_address tp) h x # rest
               \<and> (\<forall>ev \<in> set rest. \<not> storage_write ev))
           \<and> (x \<noteq> Inr () \<or> get_deploy_info e ctx (score_address tp) w1 = None
                \<or> (\<exists>y. decode_content (deploy_data tp) = Inl y) \<longrightarrow> w' = w1)
           \<and> (keeps_store store e \<longrightarrow> store w' = store w1)))"
proof (cases "get_deploy_tx_params e ctx h w")
  case None
  then show ?thesis by (simp add: deploy_def)
next
  case (Some tp)
  obtain x w1 where u: "update_score_info e ctx (score_address tp) h w = (x, w1)"
    by (cases "update_score_info e ctx (score_address tp) h w")
  show ?thesis
  proof (cases x)
    case (Inl z)
    then show ?thesis using Some u by (simp add: deploy_def Let_def)
  next
    case (Inr v)
    show ?thesis
    proof (cases "get_deploy_info e ctx (score_address tp) w1")
      case None
      then show ?thesis using Some u Inr by (simp add: deploy_def Let_def)
    next
      case (Some di)
      have "post (score_deploy e ctx (deploy_state tp) (score_address tp) (deploy_data tp)) w1
         (\<lambda>r evs w'. (\<forall>ev \<in> set evs. \<not> storage_write ev)
            \<and> ((\<exists>y. decode_content (deploy_data tp) = Inl y) \<longrightarrow> w' = w1)
            \<and> (keeps_store store e \<longrightarrow> store w' = store w1))"
        using score_deploy_store_post [of e ctx "deploy_state tp" "score_address tp" "deploy_data tp" w1 store]
        by (cases "decode_content (deploy_data tp)") (auto simp: post_def score_deploy_def raiseE_def run_defs)
      then show ?thesis
        using \<open>get_deploy_tx_params e ctx h w = Some tp\<close> u Inr Some
        by (simp add: deploy_def Let_def)
    qed
  qed
qed

text \<open>
  C3, as amended. A \<open>deploy\<close> that raises because the storage holds no \<open>TxDeployParams\<close> for
  the hash has made that lookup and nothing else: the state is the one before the call. A
  \<open>deploy\<close> that raises at any later point has called \<open>update_score_info\<close> first and makes no
  write to the storage after it: nothing undoes it. When \<open>update_score_info\<close> itself raises,
  when no \<open>DeployInfo\<close> is found after it, or when the content type or content is refused, the
  state is the one \<open>update_score_info\<close> left. For every failure, a part of the state that the
  mapper, the deployer, the file system and the contract's hooks leave alone is as
  \<open>update_score_info\<close> left it. So over a storage whose \<open>update_score_info\<close> is the reference
  one, which promotes \<open>current_tx_hash\<close>, and which those collaborators leave alone,
  every failed \<open>deploy\<close> for recorded parameters and an existing \<open>DeployInfo\<close> leaves
  \<open>current_tx_hash\<close> equal to the hash.
\<close>

theorem failed_deploy_keeps_update_score_info:
  "(outcome (deploy e ctx h w) = Inl x \<and> get_deploy_tx_params e ctx h w = None \<longrightarrow>
      world (deploy e ctx h w) = w \<and> calls (deploy e ctx h w) = [Get_deploy_tx_params h None])
   \<and> (outcome (deploy e ctx h w) = Inl x \<and> get_deploy_tx_params e ctx h w = Some tp
        \<and> update_score_info e ctx (score_address tp) h w = (u, w1) \<longrightarrow>
      (\<exists>rest. calls (deploy e ctx h w)
          = Get_deploy_tx_params h (Some tp) # Update_score_info (score_address tp) h u # rest
          \<and> (\<forall>ev \<in> set rest. \<not> storage_write ev))
      \<and> (u \<noteq> Inr () \<or> get_deploy_info e ctx (score_address tp) w1 = None
           \<or> decode_content (deploy_data tp) = Inl y \<longrightarrow> world (deploy e ctx h w) = w1)
      \<and> (keeps_store store e \<longrightarrow> store (world (deploy e ctx h w)) = store w1))
   \<and> (outcome (deploy re ctx h rw) = Inl x \<and> get_deploy_tx_params re ctx h rw = Some tp
        \<and> update_score_info re = ref_update_score_info \<and> keeps_store deploy_infos re
        \<and> deploy_infos rw (score_address tp) = Some di \<longrightarrow>
      map_option current_tx_hash (deploy_infos (world (deploy re ctx h rw)) (score_address tp))
        = Some (Some h))"
proof -
  note g = deploy_failure_post [of e ctx h w store, unfolded post_def]
  have one: "world (deploy e ctx h w) = w \<and> calls (deploy e ctx h w) = [Get_deploy_tx_params h None]"
    if "get_deploy_tx_params e ctx h w = None"
    using g that by blast
  have two: "(\<exists>rest. calls (deploy e ctx h w)
          = Get_deploy_tx_params h (Some tp) # Update_score_info (score_address tp) h u # rest
          \<and> (\<forall>ev \<in> set rest. \<not> storage_write ev))
      \<and> (u \<noteq> Inr () \<or> get_deploy_info e ctx (score_address tp) w1 = None
           \<or> decode_content (deploy_data tp) = Inl y \<longrightarrow> world (deploy e ctx h w) = w1)
      \<and> (keeps_store store e \<longrightarrow> store (world (deploy e ctx h w)) = store w1)"
    if "get_deploy_tx_params e ctx h w = Some tp \<and> update_score_info e ctx (score_address tp) h w = (u, w1)"
    using g that by blast
  have three: "map_option current_tx_hash (deploy_infos (world (deploy re ctx h rw)) (score_address tp))
        = Some (Some h)"
    if a: "get_deploy_tx_params re ctx h rw = Some tp
        \<and> update_score_info re = ref_update_score_info \<and> keeps_store deploy_infos re
        \<and> deploy_infos rw (score_address tp) = Some di"
  proof -
    obtain v rw1 where v: "ref_update_score_info ctx (score_address tp) h rw = (v, rw1)"
      by (cases "ref_update_score_info ctx (score_address tp) h rw")
    from a v have "deploy_infos (world (deploy re ctx h rw)) = deploy_infos rw1"
      using deploy_failure_post [of re ctx h rw deploy_infos, unfolded post_def] by auto
    moreover have "map_option current_tx_hash (deploy_infos rw1 (score_address tp)) = Some (Some h)"
      using a v by (auto simp: ref_update_score_info_def)
    ultimately show ?thesis by simp
  qed
  show ?thesis
    using one two three by blast
qed

lemma failing_deploy:
  "outcome (deploy (audited []) ctx0 [1, 2] (world_recorded plain_data))
      = Inl (InvalidParamsException (FString ''Invalid contentType: '' (I_val (PyStr ''text/plain''))))"
  by (simp add: engine_defs exec_defs ref_defs example_defs)

lemma reverting_deploy:
  "outcome (deploy reverting ctx0 [1, 2] (world_recorded zip_data)) = Inl (External (OtherError ''revert''))
   \<and> Call_method (On_install 5) (PyDict []) (Inl (OtherError ''revert''))
       \<in> set (calls (deploy reverting ctx0 [1, 2] (world_recorded zip_data)))"
  by (simp add: engine_defs exec_defs ref_defs variant_defs example_defs hex_value_def is_space_def)

lemma unresolved_deploy:
  "outcome (deploy (audited []) ctx0 [1, 2] (world_recorded_unresolved zip_data))
     = Inl (InvalidParamsException (FString ''score is None : '' (I_addr score_a)))"
  by (simp add: engine_defs exec_defs ref_defs variant_defs example_defs hex_value_def is_space_def)

lemma ref_keeps_store:
  "keeps_store deploy_infos (audited bs)" "keeps_store deploy_infos reverting"
  by (simp_all add: keeps_store_def ref_defs variant_defs)

text \<open>
  Counterexample to C3 as stated, on the reference storage. An install request of content
  type \<open>text/plain\<close> is recorded by \<open>invoke\<close> with the audit flag on; the \<open>deploy\<close> of its hash
  fails with "Invalid contentType", and \<open>current_tx_hash\<close> of the address, none before the
  call, is the hash after it.
\<close>

theorem failed_deploy_counterexample:
  "world (invoke (audited []) ctx0 ZERO_SCORE_ADDRESS score_a plain_data world0) = world_recorded plain_data
   \<and> outcome (deploy (audited []) ctx0 [1, 2] (world_recorded plain_data))
      = Inl (InvalidParamsException (FString ''Invalid contentType: '' (I_val (PyStr ''text/plain''))))
   \<and> map_option current_tx_hash (deploy_infos (world_recorded plain_data) score_a) = Some None
   \<and> map_option current_tx_hash
       (deploy_infos (world (deploy (audited []) ctx0 [1, 2] (world_recorded plain_data))) score_a)
      = Some (Some [1, 2])"
  by (simp add: engine_defs exec_defs ref_defs example_defs)

text \<open>
  Witness for C3, on the reference storage: a \<open>deploy\<close> without recorded parameters leaves
  the state untouched after one lookup; the failing \<open>deploy\<close> of the \<open>text/plain\<close> request
  leaves the state of \<open>update_score_info\<close>, with \<open>current_tx_hash\<close> promoted; so do a
  \<open>deploy\<close> whose contract instance cannot be resolved and one whose \<open>on_install\<close> raises.
\<close>

theorem failed_deploy_keeps_update_score_info_witness:
  "outcome (deploy (audited []) ctx0 [1, 2] world0)
      = Inl (InvalidParamsException (FString ''tx_params is None : '' (I_bytes [1, 2])))
   \<and> world (deploy (audited []) ctx0 [1, 2] world0) = world0
   \<and> calls (deploy (audited []) ctx0 [1, 2] world0) = [Get_deploy_tx_params [1, 2] None]
   \<and> outcome (deploy (audited []) ctx0 [1, 2] (world_recorded plain_data))
      = Inl (InvalidParamsException (FString ''Invalid contentType: '' (I_val (PyStr ''text/plain''))))
   \<and> world (deploy (audited []) ctx0 [1, 2] (world_recorded plain_data))
      = snd (ref_update_score_info ctx0 score_a [1, 2] (world_recorded plain_data))
   \<and> map_option current_tx_hash
       (deploy_infos (world (deploy (audited []) ctx0 [1, 2] (world_recorded plain_data))) score_a)
      = Some (Some [1, 2])
   \<and> outcome (deploy (audited []) ctx0 [1, 2] (world_recorded_unresolved zip_data))
      = Inl (InvalidParamsException (FString ''score is None : '' (I_addr score_a)))
   \<and> map_option current_tx_hash
       (deploy_infos (world (deploy (audited []) ctx0 [1, 2] (world_recorded_unresolved zip_data))) score_a)
      = Some (Some [1, 2])
   \<and> outcome (deploy reverting ctx0 [1, 2] (world_recorded zip_data))
      = Inl (External (OtherError ''revert''))
   \<and> deploy_infos (world (deploy reverting ctx0 [1, 2] (world_recorded zip_data)))
      = deploy_infos (snd (ref_update_score_info ctx0 score_a [1, 2] (world_recorded zip_data)))
   \<and> map_option current_tx_hash
       (deploy_infos (world (deploy reverting ctx0 [1, 2] (world_recorded zip_data))) score_a)
      = Some (Some [1, 2])"
proof -
  have none: "outcome (deploy (audited []) ctx0 [1, 2] world0)
      = Inl (InvalidParamsException (FString ''tx_params is None : '' (I_bytes [1, 2])))"
    by (simp add: engine_defs exec_defs ref_defs example_defs)
  have q: "get_deploy_tx_params (audited []) ctx0 [1, 2] world0 = None"
    "get_deploy_tx_params (audited []) ctx0 [1, 2] (world_recorded d)
       = Some \<lparr>score_address = score_a, deploy_state = INSTALL, deploy_data = d\<rparr>"
    "get_deploy_tx_params (audited []) ctx0 [1, 2] (world_recorded_unresolved d)
       = Some \<lparr>score_address = score_a, deploy_state = INSTALL, deploy_data = d\<rparr>"
    "get_deploy_tx_params reverting ctx0 [1, 2] (world_recorded d)
       = Some \<lparr>score_address = score_a, deploy_state = INSTALL, deploy_data = d\<rparr>"
    "deploy_infos (world_recorded d) score_a
       = Some \<lparr>owner = eoa_from, current_tx_hash = None, next_tx_hash = Some [1, 2]\<rparr>"
    "deploy_infos (world_recorded_unresolved d) score_a
       = Some \<lparr>owner = eoa_from, current_tx_hash = None, next_tx_hash = Some [1, 2]\<rparr>"
    "update_score_info (audited []) ctx0 score_a [1, 2] (world_recorded d)
       = (Inr (), snd (ref_update_score_info ctx0 score_a [1, 2] (world_recorded d)))"
    "update_score_info reverting ctx0 score_a [1, 2] (world_recorded d)
       = (Inr (), snd (ref_update_score_info ctx0 score_a [1, 2] (world_recorded d)))"
    "update_score_info (audited []) = ref_update_score_info"
    "update_score_info reverting = ref_update_score_info"
    "decode_content plain_data
       = Inl (InvalidParamsException (FString ''Invalid contentType: '' (I_val (PyStr ''text/plain''))))"
    for d
    by (simp_all add: ref_defs variant_defs ctx0_def world_recorded_def world0_def
        plain_data_def decode_content_def dict_get_def)
  note a = failed_deploy_keeps_update_score_info
    [where e = "audited []" and ctx = ctx0 and h = "[1, 2]" and w = world0
       and x = "InvalidParamsException (FString ''tx_params is None : '' (I_bytes [1, 2]))"
       and store = deploy_infos]
  note b = failed_deploy_keeps_update_score_info
    [where e = "audited []" and ctx = ctx0 and h = "[1, 2]" and w = "world_recorded plain_data"
       and x = "InvalidParamsException (FString ''Invalid contentType: '' (I_val (PyStr ''text/plain'')))"
       and tp = "\<lparr>score_address = score_a, deploy_state = INSTALL, deploy_data = plain_data\<rparr>"
       and u = "Inr ()"
       and ?w1.0 = "snd (ref_update_score_info ctx0 score_a [1, 2] (world_recorded plain_data))"
       and y = "InvalidParamsException (FString ''Invalid contentType: '' (I_val (PyStr ''text/plain'')))"
       and di = "\<lparr>owner = eoa_from, current_tx_hash = None, next_tx_hash = Some [1, 2]\<rparr>"
       and re = "audited []" and rw = "world_recorded plain_data" and store = deploy_infos]
  note c = failed_deploy_keeps_update_score_info
    [where ctx = ctx0 and h = "[1, 2]"
       and x = "InvalidParamsException (FString ''score is None : '' (I_addr score_a))"
       and tp = "\<lparr>score_address = score_a, deploy_state = INSTALL, deploy_data = zip_data\<rparr>"
       and di = "\<lparr>owner = eoa_from, current_tx_hash = None, next_tx_hash = Some [1, 2]\<rparr>"
       and re = "audited []" and rw = "world_recorded_unresolved zip_data"]
  note d = failed_deploy_keeps_update_score_info
    [where e = reverting and ctx = ctx0 and h = "[1, 2]" and w = "world_recorded zip_data"
       and x = "External (OtherError ''revert'')"
       and tp = "\<lparr>score_address = score_a, deploy_state = INSTALL, deploy_data = zip_data\<rparr>"
       and u = "Inr ()"
       and ?w1.0 = "snd (ref_update_score_info ctx0 score_a [1, 2] (world_recorded zip_data))"
       and store = deploy_infos
       and di = "\<lparr>owner = eoa_from, current_tx_hash = None, next_tx_hash = Some [1, 2]\<rparr>"
       and re = reverting and rw = "world_recorded zip_data"]
  have w0: "world (deploy (audited []) ctx0 [1, 2] world0) = world0
      \<and> calls (deploy (audited []) ctx0 [1, 2] world0) = [Get_deploy_tx_params [1, 2] None]"
    using a [THEN conjunct1] none q(1) by simp
  have w2: "world (deploy (audited []) ctx0 [1, 2] (world_recorded plain_data))
      = snd (ref_update_score_info ctx0 score_a [1, 2] (world_recorded plain_data))"
    using b [THEN conjunct2, THEN conjunct1] failing_deploy q(2,7,11) by simp
  have c2: "map_option current_tx_hash
       (deploy_infos (world (deploy (audited []) ctx0 [1, 2] (world_recorded plain_data))) score_a)
      = Some (Some [1, 2])"
    using b [THEN conjunct2, THEN conjunct2] failing_deploy q(2,5,9) ref_keeps_store(1) by simp
  have c3: "map_option current_tx_hash
       (deploy_infos (world (deploy (audited []) ctx0 [1, 2] (world_recorded_unresolved zip_data))) score_a)
      = Some (Some [1, 2])"
    using c [THEN conjunct2, THEN conjunct2] unresolved_deploy q(3,6,9) ref_keeps_store(1) by simp
  have w4: "deploy_infos (world (deploy reverting ctx0 [1, 2] (world_recorded zip_data)))
      = deploy_infos (snd (ref_update_score_info ctx0 score_a [1, 2] (world_recorded zip_data)))"
    using d [THEN conjunct2, THEN conjunct1] reverting_deploy q(4,8) ref_keeps_store(2) by simp
  have c4: "map_option current_tx_hash
       (deploy_infos (world (deploy reverting ctx0 [1, 2] (world_recorded zip_data))) score_a)
      = Some (Some [1, 2])"
    using d [THEN conjunct2, THEN conjunct2] reverting_deploy q(4,5,10) ref_keeps_store(2) by simp
  show ?thesis
    using none w0 failing_deploy w2 c2 unresolved_deploy c3 reverting_deploy w4 c4 by blast
qed

section \<open>Built-in contracts\<close>











end
